theory Spec2Isabelle
  imports Complex_Main
begin

section \<open>Study-buddy backend: request handlers over the record store\<close>

text \<open>
  The handlers of \<^verbatim>\<open>src/backend/app/api\<close> are embedded as functions that take the
  record store and the authenticated user's row and return the response (or the raised
  error) together with the store and user row as they stand after the request.

  Conventions of the embedding:
  \<^item> a table is the list of its rows; \<^verbatim>\<open>query.filter(p).first()\<close> is \<open>find p\<close>,
    \<^verbatim>\<open>query.filter(p).all()\<close> is \<open>filter p\<close>; a mutated ORM object is written back at
    \<^verbatim>\<open>db.commit()\<close> to the row the query returned (\<open>update_first\<close>); objects passed
    to \<^verbatim>\<open>db.add\<close> are appended at commit (the session is created with
    \<^verbatim>\<open>autoflush=False\<close>, so queries inside a request do not see them);
  \<^item> a raised \<^verbatim>\<open>HTTPException\<close> is the value \<open>Inl (HTTPException code detail)\<close>, and
    the store is returned as it was, since every raise precedes the first mutation;
  \<^item> \<^verbatim>\<open>Float\<close> columns and Python floats are exact rationals (\<open>rat\<close>): IEEE rounding
    is not modelled; \<^verbatim>\<open>Integer\<close> columns are \<open>int\<close>; nullable columns are options;
  \<^item> a \<^verbatim>\<open>datetime\<close> is an integer count of microseconds; \<^verbatim>\<open>datetime.utcnow()\<close> is the
    parameter \<open>now\<close> of the handler;
  \<^item> a Python \<^verbatim>\<open>str\<close> is a \<open>string\<close> of code points below 256;
  \<^item> only the columns the embedded handlers read or write are fields of the records.
\<close>

subsection \<open>Python primitives\<close>

datatype error =
    HTTPException nat string
  | ZeroDivisionError
  | TypeError

type_synonym datetime = int

definition HTTP_404_NOT_FOUND :: nat where
  "HTTP_404_NOT_FOUND = 404"

definition HTTP_400_BAD_REQUEST :: nat where
  "HTTP_400_BAD_REQUEST = 400"

text \<open>\<^verbatim>\<open>a / b\<close> on numbers: true division, raising on a zero divisor.\<close>

definition py_truediv :: "rat \<Rightarrow> rat \<Rightarrow> error + rat" where
  "py_truediv a b = (if b = 0 then Inl ZeroDivisionError else Inr (a / b))"

text \<open>\<^verbatim>\<open>int(x / k)\<close> for a positive integer \<open>k\<close>: truncation towards zero.\<close>

definition py_int_div :: "int \<Rightarrow> int \<Rightarrow> int" where
  "py_int_div x k = (if 0 \<le> x then x div k else - ((- x) div k))"

text \<open>\<^verbatim>\<open>timedelta.total_seconds() / 60\<close> of a difference of two datetimes.\<close>

definition total_minutes :: "datetime \<Rightarrow> datetime \<Rightarrow> rat" where
  "total_minutes end_time start_time = of_int (end_time - start_time) / 60000000"

text \<open>\<^verbatim>\<open>str.isspace\<close>, \<^verbatim>\<open>str.strip()\<close> and \<^verbatim>\<open>str.lower()\<close> on code points below 256.\<close>

definition py_isspace :: "char \<Rightarrow> bool" where
  "py_isspace c =
     (let n = (of_char c :: nat)
      in (9 \<le> n \<and> n \<le> 13) \<or> (28 \<le> n \<and> n \<le> 32) \<or> n = 133 \<or> n = 160)"

definition py_strip :: "string \<Rightarrow> string" where
  "py_strip s = rev (dropWhile py_isspace (rev (dropWhile py_isspace s)))"

definition py_lower_char :: "char \<Rightarrow> char" where
  "py_lower_char c =
     (let n = (of_char c :: nat)
      in if (65 \<le> n \<and> n \<le> 90) \<or> (192 \<le> n \<and> n \<le> 222 \<and> n \<noteq> 215)
         then char_of (n + 32) else c)"

definition py_lower :: "string \<Rightarrow> string" where
  "py_lower s = map py_lower_char s"

text \<open>\<^verbatim>\<open>a or b\<close> on optional strings: \<open>a\<close> when it is neither \<^verbatim>\<open>None\<close> nor empty.\<close>

definition py_or :: "string option \<Rightarrow> string option \<Rightarrow> string option" where
  "py_or a b = (case a of None \<Rightarrow> b | Some s \<Rightarrow> if s = [] then b else Some s)"

text \<open>The row a query's \<^verbatim>\<open>first()\<close> returned, written back at commit.\<close>

fun update_first :: "('a \<Rightarrow> bool) \<Rightarrow> 'a \<Rightarrow> 'a list \<Rightarrow> 'a list" where
  "update_first p y [] = []"
| "update_first p y (x # xs) = (if p x then y # xs else x # update_first p y xs)"

subsection \<open>Rows (\<^verbatim>\<open>app/models\<close>)\<close>

record user =
  u_id :: int
  u_total_study_time_minutes :: int
  u_total_assessments_completed :: int
  u_average_score :: rat

record assessment =
  a_id :: int
  a_user_id :: int
  a_subject :: string
  a_start_time :: "datetime option"
  a_end_time :: "datetime option"
  a_time_taken_minutes :: "rat option"
  a_questions_answered :: int
  a_correct_answers :: int
  a_score_percentage :: "rat option"
  a_status :: string
  a_is_completed :: bool
  a_created_at :: datetime

record question =
  q_id :: int
  q_assessment_id :: int
  q_correct_answer :: string
  q_points_possible :: rat

record answer =
  ans_assessment_id :: int
  ans_question_id :: int
  ans_user_id :: int
  ans_answer_text :: "string option"
  ans_selected_option :: "string option"
  ans_is_correct :: bool
  ans_points_earned :: rat
  ans_points_possible :: rat

text \<open>The request body of a submission (\<^verbatim>\<open>AnswerSubmission\<close>).\<close>

record answer_submission =
  sub_question_id :: int
  sub_answer_text :: "string option"
  sub_selected_option :: "string option"

record learning_session =
  ls_id :: int
  ls_user_id :: int
  ls_start_time :: "datetime option"
  ls_end_time :: "datetime option"
  ls_duration_minutes :: "int option"
  ls_completion_percentage :: rat
  ls_is_completed :: bool

record content =
  c_id :: int
  c_average_rating :: "rat option"
  c_total_ratings :: int

record content_interaction =
  ci_user_id :: int
  ci_content_id :: int
  ci_interaction_type :: string
  ci_rating :: "int option"

record progress =
  p_user_id :: int
  p_streak_days :: int
  p_is_mastered :: bool

record achievement =
  ach_user_id :: int
  ach_achievement_type :: string
  ach_title :: string
  ach_description :: string
  ach_badge_icon :: "string option"
  ach_category :: string
  ach_difficulty_level :: string
  ach_rarity :: string
  ach_points_awarded :: int
  ach_threshold_value :: "rat option"
  ach_required_progress :: rat
  ach_current_progress :: rat
  ach_progress_percentage :: rat
  ach_is_unlocked :: bool
  ach_unlocked_at :: "datetime option"

record recommendation =
  r_id :: int
  r_user_id :: int
  r_is_accepted :: "bool option"
  r_is_completed :: bool
  r_responded_at :: "datetime option"
  r_completed_at :: "datetime option"
  r_status :: string

text \<open>The record store: one list of rows per table.\<close>

record db =
  assessments :: "assessment list"
  questions :: "question list"
  answers :: "answer list"
  learning_sessions :: "learning_session list"
  contents :: "content list"
  content_interactions :: "content_interaction list"
  progress_rows :: "progress list"
  achievements :: "achievement list"
  recommendations :: "recommendation list"

definition empty_db :: db where
  "empty_db = \<lparr>assessments = [], questions = [], answers = [], learning_sessions = [],
               contents = [], content_interactions = [], progress_rows = [],
               achievements = [], recommendations = []\<rparr>"

subsection \<open>Assessments (\<^verbatim>\<open>api/assessments.py\<close>)\<close>

definition own_assessment :: "int \<Rightarrow> user \<Rightarrow> assessment \<Rightarrow> bool" where
  "own_assessment assessment_id current_user a =
     (a_id a = assessment_id \<and> a_user_id a = u_id current_user)"

definition start_assessment ::
  "int \<Rightarrow> user \<Rightarrow> datetime \<Rightarrow> db \<Rightarrow> (error + assessment) \<times> db" where
  "start_assessment assessment_id current_user now d =
     (case find (own_assessment assessment_id current_user) (assessments d) of
        None \<Rightarrow> (Inl (HTTPException HTTP_404_NOT_FOUND ''Assessment not found''), d)
      | Some assessment \<Rightarrow>
          if a_status assessment \<noteq> ''not_started''
          then (Inl (HTTPException HTTP_400_BAD_REQUEST ''Assessment has already been started''), d)
          else
            let assessment' = assessment\<lparr>a_status := ''in_progress'', a_start_time := Some now\<rparr>
            in (Inr assessment',
                d\<lparr>assessments :=
                    update_first (own_assessment assessment_id current_user) assessment'
                      (assessments d)\<rparr>))"

text \<open>\<^verbatim>\<open>question_dict = {q.id: q for q in questions}\<close>: a later row wins on a repeated key.\<close>

definition question_dict :: "question list \<Rightarrow> (int \<rightharpoonup> question)" where
  "question_dict qs = foldl (\<lambda>m q. m(q_id q \<mapsto> q)) Map.empty qs"

text \<open>The local variables of the grading loop of \<^verbatim>\<open>submit_assessment\<close>.\<close>

record grading =
  correct_answers :: int
  total_points :: rat
  earned_points :: rat
  added :: "answer list"

definition answer_matches :: "answer_submission \<Rightarrow> question \<Rightarrow> bool" where
  "answer_matches answer_data q =
     (case py_or (sub_answer_text answer_data) (sub_selected_option answer_data) of
        None \<Rightarrow> False
      | Some user_answer \<Rightarrow>
          user_answer \<noteq> [] \<and>
          py_lower (py_strip user_answer) = py_lower (py_strip (q_correct_answer q)))"

definition process_answer ::
  "int \<Rightarrow> user \<Rightarrow> (int \<rightharpoonup> question) \<Rightarrow> grading \<Rightarrow> answer_submission \<Rightarrow> grading" where
  "process_answer assessment_id current_user qd g answer_data =
     (case qd (sub_question_id answer_data) of
        None \<Rightarrow> g
      | Some q \<Rightarrow>
          let answer = \<lparr>ans_assessment_id = assessment_id,
                        ans_question_id = sub_question_id answer_data,
                        ans_user_id = u_id current_user,
                        ans_answer_text = sub_answer_text answer_data,
                        ans_selected_option = sub_selected_option answer_data,
                        ans_is_correct = False,
                        ans_points_earned = 0,
                        ans_points_possible = q_points_possible q\<rparr>
          in if answer_matches answer_data q
             then g\<lparr>correct_answers := correct_answers g + 1,
                    earned_points := earned_points g + q_points_possible q,
                    total_points := total_points g + q_points_possible q,
                    added := added g @
                      [answer\<lparr>ans_is_correct := True,
                              ans_points_earned := q_points_possible q\<rparr>]\<rparr>
             else g\<lparr>total_points := total_points g + q_points_possible q,
                    added := added g @ [answer\<lparr>ans_is_correct := False, ans_points_earned := 0\<rparr>]\<rparr>)"

definition process_answers ::
  "int \<Rightarrow> user \<Rightarrow> (int \<rightharpoonup> question) \<Rightarrow> answer_submission list \<Rightarrow> grading" where
  "process_answers assessment_id current_user qd submission =
     foldl (process_answer assessment_id current_user qd)
       \<lparr>correct_answers = 0, total_points = 0, earned_points = 0, added = []\<rparr> submission"

text \<open>The response of \<^verbatim>\<open>submit_assessment\<close>.\<close>

record submit_response =
  resp_assessment :: assessment
  resp_score :: "rat option"
  resp_correct_answers :: int
  resp_total_questions :: nat

definition submit_assessment ::
  "int \<Rightarrow> answer_submission list \<Rightarrow> user \<Rightarrow> datetime \<Rightarrow> db \<Rightarrow>
     (error + submit_response) \<times> db \<times> user" where
  "submit_assessment assessment_id submission current_user now d =
     (case find (own_assessment assessment_id current_user) (assessments d) of
        None \<Rightarrow> (Inl (HTTPException HTTP_404_NOT_FOUND ''Assessment not found''), d, current_user)
      | Some assessment \<Rightarrow>
          if a_status assessment \<noteq> ''in_progress''
          then (Inl (HTTPException HTTP_400_BAD_REQUEST ''Assessment is not in progress''),
                d, current_user)
          else
            let qs = filter (\<lambda>q. q_assessment_id q = assessment_id) (questions d);
                g = process_answers assessment_id current_user (question_dict qs) submission;
                score = (if total_points g > 0
                         then earned_points g / total_points g * 100 else 0);
                assessment' = assessment
                  \<lparr>a_end_time := Some now,
                   a_is_completed := True,
                   a_status := ''completed'',
                   a_questions_answered := int (length submission),
                   a_correct_answers := correct_answers g,
                   a_score_percentage := Some score,
                   a_time_taken_minutes :=
                     (case a_start_time assessment of
                        None \<Rightarrow> a_time_taken_minutes assessment
                      | Some start_time \<Rightarrow> Some (total_minutes now start_time))\<rparr>;
                completed = u_total_assessments_completed current_user + 1;
                current_user' = current_user
                  \<lparr>u_total_assessments_completed := completed,
                   u_average_score :=
                     (if completed > 0
                      then (u_average_score current_user * of_int (completed - 1) + score)
                             / of_int completed
                      else u_average_score current_user)\<rparr>
            in (Inr \<lparr>resp_assessment = assessment',
                     resp_score = Some score,
                     resp_correct_answers = correct_answers g,
                     resp_total_questions = length qs\<rparr>,
                d\<lparr>assessments :=
                    update_first (own_assessment assessment_id current_user) assessment'
                      (assessments d),
                  answers := answers d @ added g\<rparr>,
                current_user'))"

subsection \<open>Learning sessions (\<^verbatim>\<open>api/learning.py\<close>)\<close>

definition own_session :: "int \<Rightarrow> user \<Rightarrow> learning_session \<Rightarrow> bool" where
  "own_session session_id current_user s =
     (ls_id s = session_id \<and> ls_user_id s = u_id current_user)"

text \<open>
  \<^verbatim>\<open>int(duration.total_seconds() / 60)\<close> for the difference of two datetimes: whole
  minutes, truncated towards zero.
\<close>

definition duration_minutes :: "datetime \<Rightarrow> datetime \<Rightarrow> int" where
  "duration_minutes end_time start_time = py_int_div (end_time - start_time) 60000000"

definition complete_learning_session ::
  "int \<Rightarrow> user \<Rightarrow> datetime \<Rightarrow> db \<Rightarrow> (error + learning_session) \<times> db \<times> user" where
  "complete_learning_session session_id current_user now d =
     (case find (own_session session_id current_user) (learning_sessions d) of
        None \<Rightarrow>
          (Inl (HTTPException HTTP_404_NOT_FOUND ''Learning session not found''), d, current_user)
      | Some session \<Rightarrow>
          let session1 = session\<lparr>ls_is_completed := True, ls_end_time := Some now,
                                 ls_completion_percentage := 100\<rparr>;
              session2 =
                (case ls_start_time session1 of
                   None \<Rightarrow> session1
                 | Some start_time \<Rightarrow>
                     session1\<lparr>ls_duration_minutes := Some (duration_minutes now start_time)\<rparr>);
              current_user' =
                (case ls_duration_minutes session2 of
                   None \<Rightarrow> current_user
                 | Some minutes \<Rightarrow>
                     if minutes \<noteq> 0
                     then current_user\<lparr>u_total_study_time_minutes :=
                            u_total_study_time_minutes current_user + minutes\<rparr>
                     else current_user)
          in (Inr session2,
              d\<lparr>learning_sessions :=
                  update_first (own_session session_id current_user) session2
                    (learning_sessions d)\<rparr>,
              current_user'))"

subsection \<open>Recommendations (\<^verbatim>\<open>api/recommendations.py\<close>)\<close>

definition own_recommendation :: "int \<Rightarrow> user \<Rightarrow> recommendation \<Rightarrow> bool" where
  "own_recommendation recommendation_id current_user r =
     (r_id r = recommendation_id \<and> r_user_id r = u_id current_user)"

definition respond_to_recommendation ::
  "int \<Rightarrow> bool \<Rightarrow> user \<Rightarrow> datetime \<Rightarrow> db \<Rightarrow> (error + recommendation) \<times> db" where
  "respond_to_recommendation recommendation_id is_accepted current_user now d =
     (case find (own_recommendation recommendation_id current_user) (recommendations d) of
        None \<Rightarrow> (Inl (HTTPException HTTP_404_NOT_FOUND ''Recommendation not found''), d)
      | Some recommendation \<Rightarrow>
          let recommendation' = recommendation
                \<lparr>r_is_accepted := Some is_accepted,
                 r_responded_at := Some now,
                 r_status := (if is_accepted then ''accepted'' else ''declined'')\<rparr>
          in (Inr recommendation',
              d\<lparr>recommendations :=
                  update_first (own_recommendation recommendation_id current_user)
                    recommendation' (recommendations d)\<rparr>))"

text \<open>\<^verbatim>\<open>not recommendation.is_accepted\<close> holds for \<^verbatim>\<open>None\<close> and for \<^verbatim>\<open>False\<close>.\<close>

definition complete_recommendation ::
  "int \<Rightarrow> user \<Rightarrow> datetime \<Rightarrow> db \<Rightarrow> (error + recommendation) \<times> db" where
  "complete_recommendation recommendation_id current_user now d =
     (case find (own_recommendation recommendation_id current_user) (recommendations d) of
        None \<Rightarrow> (Inl (HTTPException HTTP_404_NOT_FOUND ''Recommendation not found''), d)
      | Some recommendation \<Rightarrow>
          if r_is_accepted recommendation \<noteq> Some True
          then (Inl (HTTPException HTTP_400_BAD_REQUEST
                       ''Cannot complete a recommendation that wasn't accepted''), d)
          else
            let recommendation' = recommendation
                  \<lparr>r_is_completed := True,
                   r_completed_at := Some now,
                   r_status := ''completed''\<rparr>
            in (Inr recommendation',
                d\<lparr>recommendations :=
                    update_first (own_recommendation recommendation_id current_user)
                      recommendation' (recommendations d)\<rparr>))"

subsection \<open>Analytics (\<^verbatim>\<open>api/analytics.py\<close>, \<^verbatim>\<open>api/assessments.py\<close>)\<close>

text \<open>
  The numbers are those the handlers compute; the response rounds them
  (\<^verbatim>\<open>round(x, 2)\<close>, \<^verbatim>\<open>round(x, 4)\<close>), which is not part of the embedding. Of each
  handler the assessment query and the statistics computed from it are embedded; the
  other entries of the response (session totals, interaction counts, the per-subject
  and per-difficulty tables) are sums, counts and divisions by a count of at least one
  or by the validated \<^verbatim>\<open>days\<close>, and raise nothing.
\<close>

definition bind_error :: "error + 'a \<Rightarrow> ('a \<Rightarrow> error + 'b) \<Rightarrow> error + 'b" where
  "bind_error x f = (case x of Inl e \<Rightarrow> Inl e | Inr v \<Rightarrow> f v)"

definition timedelta_days :: "int \<Rightarrow> int" where
  "timedelta_days days = days * 86400000000"

definition score_of :: "assessment \<Rightarrow> rat" where
  "score_of a = (case a_score_percentage a of None \<Rightarrow> 0 | Some x \<Rightarrow> x)"

text \<open>\<^verbatim>\<open>sum([a.score_percentage for a in xs])\<close>: adding a \<^verbatim>\<open>None\<close> raises.\<close>

definition py_sum_scores :: "assessment list \<Rightarrow> error + rat" where
  "py_sum_scores xs =
     (if list_all (\<lambda>a. a_score_percentage a \<noteq> None) xs
      then Inr (sum_list (map score_of xs)) else Inl TypeError)"

text \<open>\<^verbatim>\<open>sum([a.score_percentage for a in xs]) / len(xs)\<close>.\<close>

definition py_mean_scores :: "assessment list \<Rightarrow> error + rat" where
  "py_mean_scores xs = bind_error (py_sum_scores xs) (\<lambda>s. py_truediv s (of_nat (length xs)))"

text \<open>The completed assessments of the window, in the order the store returns them.\<close>

definition overview_assessments :: "user \<Rightarrow> datetime \<Rightarrow> db \<Rightarrow> assessment list" where
  "overview_assessments current_user start_date d =
     filter (\<lambda>a. a_user_id a = u_id current_user \<and> start_date \<le> a_created_at a
                 \<and> a_is_completed a) (assessments d)"

definition overview_average_score :: "assessment list \<Rightarrow> error + rat" where
  "overview_average_score xs = (if xs \<noteq> [] then py_mean_scores xs else Inr 0)"

definition overview_improvement_rate :: "assessment list \<Rightarrow> error + rat" where
  "overview_improvement_rate xs =
     (if 2 \<le> length xs
      then
        let first_half = take (length xs div 2) xs;
            second_half = drop (length xs div 2) xs
        in bind_error (py_mean_scores first_half) (\<lambda>first_avg.
           bind_error (py_mean_scores second_half) (\<lambda>second_avg.
             Inr (if first_avg > 0 then (second_avg - first_avg) / first_avg * 100 else 0)))
      else Inr 0)"

record overview =
  ov_total_assessments :: nat
  ov_average_score :: rat
  ov_improvement_rate :: rat

definition get_analytics_overview :: "user \<Rightarrow> datetime \<Rightarrow> int \<Rightarrow> db \<Rightarrow> error + overview" where
  "get_analytics_overview current_user now days d =
     (let end_date = now;
          start_date = end_date - timedelta_days days;
          xs = overview_assessments current_user start_date d
      in bind_error (overview_average_score xs) (\<lambda>average_score.
         bind_error (overview_improvement_rate xs) (\<lambda>improvement_rate.
           Inr \<lparr>ov_total_assessments = length xs,
                ov_average_score = average_score,
                ov_improvement_rate = improvement_rate\<rparr>)))"

text \<open>
  The improvement trend of \<^verbatim>\<open>get_assessment_analytics\<close>; the sums over \<^verbatim>\<open>range(n)\<close> are
  Python integers.
\<close>

definition improvement_trend :: "rat list \<Rightarrow> error + rat" where
  "improvement_trend scores =
     (if 1 < length scores
      then
        let n = int (length scores);
            x_sum = sum_list (map int [0..<length scores]);
            y_sum = sum_list scores;
            xy_sum = sum_list (map (\<lambda>(i, score). of_nat i * score) (enumerate 0 scores));
            x_squared_sum = sum_list (map (\<lambda>i. int i * int i) [0..<length scores])
        in py_truediv (of_int n * xy_sum - of_int x_sum * y_sum)
             (of_int (n * x_squared_sum - x_sum * x_sum))
      else Inr 0)"

text \<open>
  The completed assessments of the window, optionally of one subject (\<^verbatim>\<open>if subject:\<close>
  is false for \<^verbatim>\<open>None\<close> and for the empty string), ordered by creation time.
\<close>

definition analytics_assessments ::
  "user \<Rightarrow> datetime \<Rightarrow> int \<Rightarrow> string option \<Rightarrow> db \<Rightarrow> assessment list" where
  "analytics_assessments current_user now days subject d =
     sort_key a_created_at
       (filter (\<lambda>a. a_user_id a = u_id current_user \<and> a_is_completed a
                   \<and> now - timedelta_days days \<le> a_created_at a
                   \<and> (case subject of
                        None \<Rightarrow> True
                      | Some s \<Rightarrow> s = [] \<or> a_subject a = s))
          (assessments d))"

record performance =
  perf_total_assessments :: nat
  perf_average_score :: rat
  perf_improvement_trend :: rat

definition get_assessment_analytics ::
  "user \<Rightarrow> datetime \<Rightarrow> int \<Rightarrow> string option \<Rightarrow> db \<Rightarrow> error + performance" where
  "get_assessment_analytics current_user now days subject d =
     (let xs = analytics_assessments current_user now days subject d
      in if xs = []
         then Inr \<lparr>perf_total_assessments = 0, perf_average_score = 0,
                   perf_improvement_trend = 0\<rparr>
         else
           bind_error (py_mean_scores xs) (\<lambda>average_score.
           bind_error (improvement_trend (map score_of xs)) (\<lambda>trend.
             Inr \<lparr>perf_total_assessments = length xs,
                  perf_average_score = average_score,
                  perf_improvement_trend = trend\<rparr>)))"

subsection \<open>Content ratings (\<^verbatim>\<open>api/content.py\<close>)\<close>

text \<open>\<^verbatim>\<open>create_content\<close> leaves the rating columns at their defaults.\<close>

definition new_content :: "int \<Rightarrow> content" where
  "new_content i = \<lparr>c_id = i, c_average_rating = None, c_total_ratings = 0\<rparr>"

definition is_rating_of :: "user \<Rightarrow> int \<Rightarrow> content_interaction \<Rightarrow> bool" where
  "is_rating_of current_user content_id i =
     (ci_user_id i = u_id current_user \<and> ci_content_id i = content_id
      \<and> ci_interaction_type i = ''rate'')"

text \<open>
  The response carries the new average (rounded by \<^verbatim>\<open>round(x, 2)\<close>, which raises on
  \<^verbatim>\<open>None\<close> after the commit); multiplying a \<^verbatim>\<open>None\<close> average or subtracting a \<^verbatim>\<open>None\<close>
  old rating raises before the commit.
\<close>

definition rate_content :: "int \<Rightarrow> int \<Rightarrow> user \<Rightarrow> db \<Rightarrow> (error + rat) \<times> db" where
  "rate_content content_id rating current_user d =
     (case find (\<lambda>c. c_id c = content_id) (contents d) of
        None \<Rightarrow> (Inl (HTTPException HTTP_404_NOT_FOUND ''Content not found''), d)
      | Some content \<Rightarrow>
          (case find (is_rating_of current_user content_id) (content_interactions d) of
             Some existing_rating \<Rightarrow>
               if 0 < c_total_ratings content
               then
                 (case c_average_rating content of
                    None \<Rightarrow> (Inl TypeError, d)
                  | Some average \<Rightarrow>
                      (case ci_rating existing_rating of
                         None \<Rightarrow> (Inl TypeError, d)
                       | Some old_rating \<Rightarrow>
                           let total_rating_points =
                                 average * of_int (c_total_ratings content);
                               total_rating_points' =
                                 total_rating_points - of_int old_rating + of_int rating;
                               new_average =
                                 total_rating_points' / of_int (c_total_ratings content)
                           in (Inr new_average,
                               d\<lparr>contents :=
                                   update_first (\<lambda>c. c_id c = content_id)
                                     (content\<lparr>c_average_rating := Some new_average\<rparr>)
                                     (contents d),
                                 content_interactions :=
                                   update_first (is_rating_of current_user content_id)
                                     (existing_rating\<lparr>ci_rating := Some rating\<rparr>)
                                     (content_interactions d)\<rparr>)))
               else
                 ((case c_average_rating content of
                     None \<Rightarrow> Inl TypeError
                   | Some average \<Rightarrow> Inr average),
                  d\<lparr>content_interactions :=
                      update_first (is_rating_of current_user content_id)
                        (existing_rating\<lparr>ci_rating := Some rating\<rparr>)
                        (content_interactions d)\<rparr>)
           | None \<Rightarrow>
               let rating_interaction =
                     \<lparr>ci_user_id = u_id current_user, ci_content_id = content_id,
                      ci_interaction_type = ''rate'', ci_rating = Some rating\<rparr>
               in if 0 < c_total_ratings content
                  then
                    (case c_average_rating content of
                       None \<Rightarrow> (Inl TypeError, d)
                     | Some average \<Rightarrow>
                         let total_rating_points =
                               average * of_int (c_total_ratings content);
                             new_average =
                               (total_rating_points + of_int rating)
                                 / of_int (c_total_ratings content + 1)
                         in (Inr new_average,
                             d\<lparr>contents :=
                                 update_first (\<lambda>c. c_id c = content_id)
                                   (content\<lparr>c_average_rating := Some new_average,
                                            c_total_ratings := c_total_ratings content + 1\<rparr>)
                                   (contents d),
                               content_interactions :=
                                 content_interactions d @ [rating_interaction]\<rparr>))
                  else
                    (Inr (of_int rating),
                     d\<lparr>contents :=
                         update_first (\<lambda>c. c_id c = content_id)
                           (content\<lparr>c_average_rating := Some (of_int rating),
                                    c_total_ratings := c_total_ratings content + 1\<rparr>)
                           (contents d),
                       content_interactions :=
                         content_interactions d @ [rating_interaction]\<rparr>)))"

text \<open>A sequence of requests to the rate endpoint: who rates which content how.\<close>

fun rate_all :: "(user \<times> int \<times> int) list \<Rightarrow> db \<Rightarrow> db" where
  "rate_all [] d = d"
| "rate_all ((current_user, content_id, rating) # requests) d =
     rate_all requests (snd (rate_content content_id rating current_user d))"

subsection \<open>Achievements (\<^verbatim>\<open>api/progress.py\<close>)\<close>

text \<open>\<^verbatim>\<open>str(n)\<close> of an integer, as the f-strings of the titles format it.\<close>

fun str_nat :: "nat \<Rightarrow> string" where
  "str_nat n =
     (if n < 10 then [''0123456789'' ! n]
      else str_nat (n div 10) @ [''0123456789'' ! (n mod 10)])"

declare str_nat.simps [simp del]

definition str_int :: "int \<Rightarrow> string" where
  "str_int i = (if i < 0 then ''-'' @ str_nat (nat (- i)) else str_nat (nat i))"

definition streak_milestones :: "int list" where
  "streak_milestones = [7, 14, 30, 60, 100]"

definition time_milestones :: "int list" where
  "time_milestones = [600, 1200, 3000, 6000, 12000]"

definition mastery_milestones :: "int list" where
  "mastery_milestones = [1, 3, 5, 10]"

definition streak_achievement :: "user \<Rightarrow> int \<Rightarrow> datetime \<Rightarrow> int \<Rightarrow> achievement" where
  "streak_achievement current_user max_streak now milestone =
     \<lparr>ach_user_id = u_id current_user,
      ach_achievement_type = ''streak'',
      ach_title = str_int milestone @ ''-Day Study Streak'',
      ach_description =
        ''Studied consistently for '' @ str_int milestone @ '' days in a row!'',
      ach_badge_icon = Some ''streak_badge'',
      ach_category = ''consistency'',
      ach_difficulty_level = (if milestone \<le> 30 then ''medium'' else ''hard''),
      ach_rarity = (if milestone \<le> 30 then ''uncommon'' else ''rare''),
      ach_points_awarded = milestone * 2,
      ach_threshold_value = Some (of_int milestone),
      ach_required_progress = of_int milestone,
      ach_current_progress = of_int max_streak,
      ach_progress_percentage = 100,
      ach_is_unlocked = True,
      ach_unlocked_at = Some now\<rparr>"

definition time_achievement :: "user \<Rightarrow> int \<Rightarrow> datetime \<Rightarrow> int \<Rightarrow> achievement" where
  "time_achievement current_user total_study_time now milestone =
     (let hours = milestone div 60
      in \<lparr>ach_user_id = u_id current_user,
          ach_achievement_type = ''time'',
          ach_title = str_int hours @ ''-Hour Scholar'',
          ach_description = ''Dedicated '' @ str_int hours @ '' hours to learning!'',
          ach_badge_icon = Some ''time_badge'',
          ach_category = ''dedication'',
          ach_difficulty_level =
            (if hours \<le> 20 then ''easy'' else if hours \<le> 100 then ''medium'' else ''hard''),
          ach_rarity =
            (if hours \<le> 20 then ''common'' else if hours \<le> 100 then ''uncommon'' else ''rare''),
          ach_points_awarded = hours * 5,
          ach_threshold_value = Some (of_int milestone),
          ach_required_progress = of_int milestone,
          ach_current_progress = of_int total_study_time,
          ach_progress_percentage = 100,
          ach_is_unlocked = True,
          ach_unlocked_at = Some now\<rparr>)"

definition perfect_achievement :: "user \<Rightarrow> datetime \<Rightarrow> achievement" where
  "perfect_achievement current_user now =
     \<lparr>ach_user_id = u_id current_user,
      ach_achievement_type = ''assessment'',
      ach_title = ''Perfectionist'',
      ach_description = ''Maintained an average score of 95% or higher!'',
      ach_badge_icon = Some ''perfect_badge'',
      ach_category = ''excellence'',
      ach_difficulty_level = ''hard'',
      ach_rarity = ''epic'',
      ach_points_awarded = 100,
      ach_threshold_value = Some 95,
      ach_required_progress = 95,
      ach_current_progress = u_average_score current_user,
      ach_progress_percentage = 100,
      ach_is_unlocked = True,
      ach_unlocked_at = Some now\<rparr>"

definition mastery_achievement :: "user \<Rightarrow> int \<Rightarrow> datetime \<Rightarrow> int \<Rightarrow> achievement" where
  "mastery_achievement current_user mastered_subjects now milestone =
     \<lparr>ach_user_id = u_id current_user,
      ach_achievement_type = ''mastery'',
      ach_title =
        ''Master of '' @ str_int milestone @ '' Subject'' @ (if milestone > 1 then ''s'' else ''''),
      ach_description =
        ''Achieved mastery in '' @ str_int milestone @ '' subject''
          @ (if milestone > 1 then ''s'' else '''') @ ''!'',
      ach_badge_icon = Some ''mastery_badge'',
      ach_category = ''expertise'',
      ach_difficulty_level = (if milestone \<le> 3 then ''medium'' else ''hard''),
      ach_rarity = (if milestone \<le> 3 then ''rare'' else ''epic''),
      ach_points_awarded = milestone * 50,
      ach_threshold_value = Some (of_int milestone),
      ach_required_progress = of_int milestone,
      ach_current_progress = of_int mastered_subjects,
      ach_progress_percentage = 100,
      ach_is_unlocked = True,
      ach_unlocked_at = Some now\<rparr>"

text \<open>
  The existence queries: an achievement of the user with the type and the threshold
  value, and, for the perfect score, with the type and the title.
\<close>

definition has_threshold :: "user \<Rightarrow> string \<Rightarrow> int \<Rightarrow> achievement \<Rightarrow> bool" where
  "has_threshold current_user achievement_type milestone x =
     (ach_user_id x = u_id current_user \<and> ach_achievement_type x = achievement_type
      \<and> ach_threshold_value x = Some (of_int milestone))"

definition has_title :: "user \<Rightarrow> string \<Rightarrow> string \<Rightarrow> achievement \<Rightarrow> bool" where
  "has_title current_user achievement_type title x =
     (ach_user_id x = u_id current_user \<and> ach_achievement_type x = achievement_type
      \<and> ach_title x = title)"

text \<open>
  One pass of a milestone loop. The three loops of the handler have this body, with
  their own type string, value and \<^verbatim>\<open>Achievement\<close> constructor. The state of the pass is
  the list of objects given to \<^verbatim>\<open>db.add\<close> and the counter \<^verbatim>\<open>achievements_unlocked\<close>; the
  queries read the committed rows only.
\<close>

definition unlock_step ::
  "db \<Rightarrow> user \<Rightarrow> string \<Rightarrow> (int \<Rightarrow> achievement) \<Rightarrow> int \<Rightarrow>
     achievement list \<times> int \<Rightarrow> int \<Rightarrow> achievement list \<times> int" where
  "unlock_step d current_user achievement_type new_row current acc milestone =
     (if current \<ge> milestone
      then
        (case find (has_threshold current_user achievement_type milestone) (achievements d) of
           None \<Rightarrow> (fst acc @ [new_row milestone], snd acc + 1)
         | Some existing \<Rightarrow> acc)
      else acc)"

text \<open>\<^verbatim>\<open>db.query(func.max(Progress.streak_days)).filter(...).scalar() or 0\<close>.\<close>

definition max_streak_of :: "db \<Rightarrow> user \<Rightarrow> int" where
  "max_streak_of d current_user =
     (case map p_streak_days
             (filter (\<lambda>p. p_user_id p = u_id current_user) (progress_rows d)) of
        [] \<Rightarrow> 0
      | x # xs \<Rightarrow> foldl max x xs)"

definition mastered_subjects_of :: "db \<Rightarrow> user \<Rightarrow> int" where
  "mastered_subjects_of d current_user =
     int (length (filter (\<lambda>p. p_user_id p = u_id current_user \<and> p_is_mastered p)
                    (progress_rows d)))"

definition perfect_step ::
  "db \<Rightarrow> user \<Rightarrow> datetime \<Rightarrow> achievement list \<times> int \<Rightarrow> achievement list \<times> int" where
  "perfect_step d current_user now acc =
     (if u_average_score current_user \<ge> 95
      then
        (case find (has_title current_user ''assessment'' ''Perfectionist'') (achievements d) of
           None \<Rightarrow> (fst acc @ [perfect_achievement current_user now], snd acc + 1)
         | Some existing \<Rightarrow> acc)
      else acc)"

text \<open>The handler returns \<^verbatim>\<open>achievements_unlocked\<close> and commits the added rows.\<close>

definition check_for_new_achievements :: "user \<Rightarrow> datetime \<Rightarrow> db \<Rightarrow> int \<times> db" where
  "check_for_new_achievements current_user now d =
     (let max_streak = max_streak_of d current_user;
          acc1 = foldl (unlock_step d current_user ''streak''
                          (streak_achievement current_user max_streak now) max_streak)
                   ([], 0) streak_milestones;
          total_study_time = u_total_study_time_minutes current_user;
          acc2 = foldl (unlock_step d current_user ''time''
                          (time_achievement current_user total_study_time now) total_study_time)
                   acc1 time_milestones;
          acc3 = perfect_step d current_user now acc2;
          mastered_subjects = mastered_subjects_of d current_user;
          acc4 = foldl (unlock_step d current_user ''mastery''
                          (mastery_achievement current_user mastered_subjects now)
                          mastered_subjects)
                   acc3 mastery_milestones
      in (snd acc4, d\<lparr>achievements := achievements d @ fst acc4\<rparr>))"

subsection \<open>Reference notions for the grading of a submission\<close>

text \<open>
  The submitted answers that are graded: those whose \<^verbatim>\<open>question_id\<close> is a key of the
  question dictionary, each paired with its question, in submission order.
\<close>

fun matched ::
  "(int \<rightharpoonup> question) \<Rightarrow> answer_submission list \<Rightarrow> (answer_submission \<times> question) list" where
  "matched qd [] = []"
| "matched qd (s # ss) =
     (case qd (sub_question_id s) of
        None \<Rightarrow> matched qd ss
      | Some q \<Rightarrow> (s, q) # matched qd ss)"

definition points_of :: "(answer_submission \<times> question) list \<Rightarrow> rat" where
  "points_of sqs = sum_list (map (\<lambda>sq. q_points_possible (snd sq)) sqs)"

text \<open>The \<^verbatim>\<open>Answer\<close> row expected for a graded answer.\<close>

definition graded_answer :: "int \<Rightarrow> user \<Rightarrow> answer_submission \<times> question \<Rightarrow> answer" where
  "graded_answer assessment_id current_user sq =
     \<lparr>ans_assessment_id = assessment_id,
      ans_question_id = sub_question_id (fst sq),
      ans_user_id = u_id current_user,
      ans_answer_text = sub_answer_text (fst sq),
      ans_selected_option = sub_selected_option (fst sq),
      ans_is_correct = answer_matches (fst sq) (snd sq),
      ans_points_earned =
        (if answer_matches (fst sq) (snd sq) then q_points_possible (snd sq) else 0),
      ans_points_possible = q_points_possible (snd sq)\<rparr>"

text \<open>
  The comparison in the words of the specification: the submitted text is
  \<^verbatim>\<open>answer_text\<close>, or \<^verbatim>\<open>selected_option\<close> when \<^verbatim>\<open>answer_text\<close> is absent, and it is
  compared trimmed and case-insensitively with the correct answer.
\<close>

definition submitted_text :: "answer_submission \<Rightarrow> string option" where
  "submitted_text s =
     (case sub_answer_text s of None \<Rightarrow> sub_selected_option s | Some t \<Rightarrow> Some t)"

definition text_equals_correct :: "answer_submission \<Rightarrow> question \<Rightarrow> bool" where
  "text_equals_correct s q =
     (case submitted_text s of
        None \<Rightarrow> False
      | Some t \<Rightarrow> py_lower (py_strip t) = py_lower (py_strip (q_correct_answer q)))"

definition specified_score :: "(int \<rightharpoonup> question) \<Rightarrow> answer_submission list \<Rightarrow> rat" where
  "specified_score qd submission =
     points_of (filter (\<lambda>sq. text_equals_correct (fst sq) (snd sq)) (matched qd submission))
       / points_of (matched qd submission) * 100"

text \<open>The question ids of an assessment, and its question dictionary.\<close>

definition is_question_of :: "db \<Rightarrow> int \<Rightarrow> int \<Rightarrow> bool" where
  "is_question_of d assessment_id i =
     list_ex (\<lambda>q. q_assessment_id q = assessment_id \<and> q_id q = i) (questions d)"

abbreviation qdict :: "db \<Rightarrow> int \<Rightarrow> (int \<rightharpoonup> question)" where
  "qdict d assessment_id \<equiv>
     question_dict (filter (\<lambda>q. q_assessment_id q = assessment_id) (questions d))"

text \<open>The score a response carries (\<open>None\<close> for an error response).\<close>

definition response_score :: "(error + submit_response) \<times> db \<times> user \<Rightarrow> rat option" where
  "response_score out =
     (case fst out of Inl e \<Rightarrow> None | Inr r \<Rightarrow> a_score_percentage (resp_assessment r))"

subsection \<open>Reference notions for the analytics\<close>

definition mean :: "rat list \<Rightarrow> rat" where
  "mean xs = sum_list xs / of_nat (length xs)"

text \<open>The improvement rate in the words of the specification.\<close>

definition specified_improvement_rate :: "rat list \<Rightarrow> rat" where
  "specified_improvement_rate scores =
     (let n = length scores;
          first_mean = mean (take (n div 2) scores);
          second_mean = mean (drop (n div 2) scores)
      in if n < 2 \<or> first_mean = 0 then 0
         else (second_mean - first_mean) / first_mean * 100)"

text \<open>The least-squares slope of the scores against their index \<open>0..n-1\<close>.\<close>

definition ols_denominator :: "nat \<Rightarrow> rat" where
  "ols_denominator n = of_nat n * (\<Sum>i<n. (of_nat i)\<^sup>2) - (\<Sum>i<n. of_nat i)\<^sup>2"

definition ols_slope :: "rat list \<Rightarrow> rat" where
  "ols_slope scores =
     (let n = length scores
      in (of_nat n * (\<Sum>i<n. of_nat i * scores ! i) - (\<Sum>i<n. of_nat i) * (\<Sum>i<n. scores ! i))
         / ols_denominator n)"

text \<open>
  The squared error of the line \<open>a + b\<cdot>i\<close> against the scores, and the intercept that
  goes with the slope.
\<close>

definition squared_error :: "rat list \<Rightarrow> rat \<Rightarrow> rat \<Rightarrow> rat" where
  "squared_error ys a b = (\<Sum>i<length ys. (ys ! i - a - b * of_nat i)\<^sup>2)"

definition ols_intercept :: "rat list \<Rightarrow> rat" where
  "ols_intercept ys =
     ((\<Sum>i<length ys. ys ! i) - ols_slope ys * (\<Sum>i<length ys. of_nat i)) / of_nat (length ys)"

subsection \<open>Reference notions for the ratings\<close>

text \<open>The current per-user ratings of a content item: its interactions of type rate.\<close>

definition rate_rows :: "db \<Rightarrow> int \<Rightarrow> content_interaction list" where
  "rate_rows d content_id =
     filter (\<lambda>i. ci_content_id i = content_id \<and> ci_interaction_type i = ''rate'')
       (content_interactions d)"

definition rating_value :: "content_interaction \<Rightarrow> rat" where
  "rating_value i = (case ci_rating i of None \<Rightarrow> 0 | Some r \<Rightarrow> of_int r)"

definition current_ratings :: "db \<Rightarrow> int \<Rightarrow> rat list" where
  "current_ratings d content_id = map rating_value (rate_rows d content_id)"

text \<open>
  The rating columns of a content item agree with its current ratings: one rating per
  user, each with a value, \<^verbatim>\<open>total_ratings\<close> their number and \<^verbatim>\<open>average_rating\<close>
  their mean.
\<close>

definition consistent_rows :: "content_interaction list \<Rightarrow> content \<Rightarrow> bool" where
  "consistent_rows rows c =
     (c_total_ratings c = int (length rows)
      \<and> list_all (\<lambda>i. ci_rating i \<noteq> None) rows
      \<and> distinct (map ci_user_id rows)
      \<and> (rows = [] \<or> c_average_rating c = Some (mean (map rating_value rows))))"

definition ratings_consistent :: "db \<Rightarrow> content \<Rightarrow> bool" where
  "ratings_consistent d c = consistent_rows (rate_rows d (c_id c)) c"

definition rating_inv :: "db \<Rightarrow> bool" where
  "rating_inv d =
     (distinct (map c_id (contents d)) \<and> list_all (ratings_consistent d) (contents d))"

text \<open>A store whose content items have not been rated yet.\<close>

definition unrated :: "db \<Rightarrow> bool" where
  "unrated d =
     (distinct (map c_id (contents d))
      \<and> list_all (\<lambda>c. c_total_ratings c = 0) (contents d)
      \<and> list_all (\<lambda>i. ci_interaction_type i \<noteq> ''rate'') (content_interactions d))"

definition old_mean :: "content \<Rightarrow> rat" where
  "old_mean c = (case c_average_rating c of None \<Rightarrow> 0 | Some a \<Rightarrow> a)"

subsection \<open>Reference notions for the achievements\<close>

text \<open>
  The milestones of a table that are due: reached by the current value and without a
  row of the user with that type and threshold in the store.
\<close>

definition due :: "db \<Rightarrow> user \<Rightarrow> string \<Rightarrow> int \<Rightarrow> int list \<Rightarrow> int list" where
  "due d current_user achievement_type current milestones =
     filter (\<lambda>m. m \<le> current
                \<and> find (has_threshold current_user achievement_type m) (achievements d) = None)
       milestones"

definition perfect_due :: "db \<Rightarrow> user \<Rightarrow> bool" where
  "perfect_due d current_user =
     (95 \<le> u_average_score current_user
      \<and> find (has_title current_user ''assessment'' ''Perfectionist'') (achievements d) = None)"

text \<open>The three milestone tables with the value each is compared with.\<close>

definition milestone_tables :: "db \<Rightarrow> user \<Rightarrow> (string \<times> int \<times> int list) list" where
  "milestone_tables d current_user =
     [(''streak'', max_streak_of d current_user, streak_milestones),
      (''time'', u_total_study_time_minutes current_user, time_milestones),
      (''mastery'', mastered_subjects_of d current_user, mastery_milestones)]"

text \<open>How many rows the store holds for a milestone, and for the perfect score.\<close>

definition unlocked_count :: "db \<Rightarrow> user \<Rightarrow> string \<Rightarrow> int \<Rightarrow> nat" where
  "unlocked_count d current_user achievement_type m =
     length (filter (has_threshold current_user achievement_type m) (achievements d))"

definition perfect_count :: "db \<Rightarrow> user \<Rightarrow> nat" where
  "perfect_count d current_user =
     length (filter (has_title current_user ''assessment'' ''Perfectionist'') (achievements d))"

text \<open>The rows one call of the check is expected to add, in the order of the handler.\<close>

definition new_rows :: "user \<Rightarrow> datetime \<Rightarrow> db \<Rightarrow> achievement list" where
  "new_rows current_user now d =
     map (streak_achievement current_user (max_streak_of d current_user) now)
       (due d current_user ''streak'' (max_streak_of d current_user) streak_milestones)
     @ map (time_achievement current_user (u_total_study_time_minutes current_user) now)
         (due d current_user ''time'' (u_total_study_time_minutes current_user) time_milestones)
     @ (if perfect_due d current_user then [perfect_achievement current_user now] else [])
     @ map (mastery_achievement current_user (mastered_subjects_of d current_user) now)
         (due d current_user ''mastery'' (mastered_subjects_of d current_user) mastery_milestones)"

subsection \<open>Example data\<close>

definition user1 :: user where
  "user1 = \<lparr>u_id = 1, u_total_study_time_minutes = 0,
            u_total_assessments_completed = 0, u_average_score = 0\<rparr>"

definition quiz :: "string \<Rightarrow> assessment" where
  "quiz st = \<lparr>a_id = 7, a_user_id = 1, a_subject = ''math'', a_start_time = None,
              a_end_time = None, a_time_taken_minutes = None, a_questions_answered = 0,
              a_correct_answers = 0, a_score_percentage = None, a_status = st,
              a_is_completed = False, a_created_at = 0\<rparr>"

definition quiz_db :: "string \<Rightarrow> db" where
  "quiz_db st = empty_db
     \<lparr>assessments := [quiz st],
      questions := [\<lparr>q_id = 1, q_assessment_id = 7, q_correct_answer = ''Paris'',
                     q_points_possible = 1\<rparr>,
                    \<lparr>q_id = 2, q_assessment_id = 7, q_correct_answer = ''4'',
                     q_points_possible = 3\<rparr>]\<rparr>"

definition paris_and_unknown :: "answer_submission list" where
  "paris_and_unknown =
     [\<lparr>sub_question_id = 1, sub_answer_text = Some '' paris '', sub_selected_option = None\<rparr>,
      \<lparr>sub_question_id = 99, sub_answer_text = Some ''4'', sub_selected_option = None\<rparr>]"

definition paris_and_five :: "answer_submission list" where
  "paris_and_five =
     [\<lparr>sub_question_id = 1, sub_answer_text = None, sub_selected_option = Some ''PARIS''\<rparr>,
      \<lparr>sub_question_id = 2, sub_answer_text = Some ''5'', sub_selected_option = None\<rparr>]"

text \<open>An essay-style question whose stored correct answer is the empty string.\<close>

definition blank_db :: db where
  "blank_db = empty_db
     \<lparr>assessments := [quiz ''in_progress''],
      questions := [\<lparr>q_id = 1, q_assessment_id = 7, q_correct_answer = [],
                     q_points_possible = 1\<rparr>]\<rparr>"

definition blank_submission :: "answer_submission list" where
  "blank_submission =
     [\<lparr>sub_question_id = 1, sub_answer_text = Some [], sub_selected_option = Some []\<rparr>]"

text \<open>A study session of user 1 that started at time 0, and two completion requests.\<close>

definition session_db :: db where
  "session_db = empty_db
     \<lparr>learning_sessions :=
        [\<lparr>ls_id = 3, ls_user_id = 1, ls_start_time = Some 0, ls_end_time = None,
          ls_duration_minutes = None, ls_completion_percentage = 0,
          ls_is_completed = False\<rparr>]\<rparr>"

definition minutes_us :: "int \<Rightarrow> datetime" where
  "minutes_us m = m * 60000000"

definition completed_once :: "(error + learning_session) \<times> db \<times> user" where
  "completed_once = complete_learning_session 3 user1 (minutes_us 45) session_db"

definition completed_twice :: "(error + learning_session) \<times> db \<times> user" where
  "completed_twice =
     complete_learning_session 3 (snd (snd completed_once)) (minutes_us 60)
       (fst (snd completed_once))"

definition suggestion :: "bool option \<Rightarrow> recommendation" where
  "suggestion acc = \<lparr>r_id = 5, r_user_id = 1, r_is_accepted = acc, r_is_completed = False,
                     r_responded_at = None, r_completed_at = None, r_status = ''pending''\<rparr>"

definition suggestion_db :: "bool option \<Rightarrow> db" where
  "suggestion_db acc = empty_db\<lparr>recommendations := [suggestion acc]\<rparr>"

text \<open>Completed assessments of user 1 with the given scores, created one per minute.\<close>

definition scored :: "int \<Rightarrow> rat \<Rightarrow> assessment" where
  "scored i x = \<lparr>a_id = i, a_user_id = 1, a_subject = ''math'', a_start_time = Some 0,
                 a_end_time = Some 1, a_time_taken_minutes = Some 0,
                 a_questions_answered = 1, a_correct_answers = 0,
                 a_score_percentage = Some x, a_status = ''completed'',
                 a_is_completed = True, a_created_at = minutes_us i\<rparr>"

definition scores_db :: "rat list \<Rightarrow> db" where
  "scores_db xs = empty_db\<lparr>assessments := map (\<lambda>(i, x). scored (int i) x) (enumerate 0 xs)\<rparr>"

text \<open>
  A store that holds, besides two completed assessments of user 1 created inside a
  one-day window ending at day 3 (scores 60 and 90), a completed assessment of user 1
  created before the window, a completed assessment of user 2 and an assessment of
  user 1 that is still in progress and has no score.
\<close>

definition mixed_db :: db where
  "mixed_db = empty_db
     \<lparr>assessments :=
        [scored 0 10,
         scored 3000 60,
         (scored 3500 20)\<lparr>a_user_id := 2\<rparr>,
         (quiz ''in_progress'')\<lparr>a_created_at := minutes_us 3600\<rparr>,
         scored 4000 90]\<rparr>"

text \<open>The same store without the two assessments that the window query selects.\<close>

definition excluded_db :: db where
  "excluded_db = empty_db
     \<lparr>assessments :=
        [scored 0 10,
         (scored 3500 20)\<lparr>a_user_id := 2\<rparr>,
         (quiz ''in_progress'')\<lparr>a_created_at := minutes_us 3600\<rparr>]\<rparr>"

text \<open>A quiz with a question worth a negative number of points.\<close>

definition penalty_db :: db where
  "penalty_db = empty_db
     \<lparr>assessments := [quiz ''in_progress''],
      questions := [\<lparr>q_id = 1, q_assessment_id = 7, q_correct_answer = ''x'',
                     q_points_possible = - 1\<rparr>,
                    \<lparr>q_id = 2, q_assessment_id = 7, q_correct_answer = ''y'',
                     q_points_possible = 2\<rparr>]\<rparr>"

definition penalty_submission :: "answer_submission list" where
  "penalty_submission =
     [\<lparr>sub_question_id = 1, sub_answer_text = Some ''x'', sub_selected_option = None\<rparr>,
      \<lparr>sub_question_id = 2, sub_answer_text = Some ''z'', sub_selected_option = None\<rparr>]"

text \<open>A catalogue of two fresh content items, and a second user.\<close>

definition catalogue :: db where
  "catalogue = empty_db\<lparr>contents := [new_content 1, new_content 2]\<rparr>"

definition user2 :: user where
  "user2 = \<lparr>u_id = 2, u_total_study_time_minutes = 0,
            u_total_assessments_completed = 0, u_average_score = 0\<rparr>"

text \<open>
  A learner with a 15-day streak, 20 hours of study, an average of 96 and one mastered
  subject.
\<close>

definition learner :: user where
  "learner = \<lparr>u_id = 1, u_total_study_time_minutes = 1200,
              u_total_assessments_completed = 4, u_average_score = 96\<rparr>"

definition learner_db :: db where
  "learner_db = empty_db
     \<lparr>progress_rows :=
        [\<lparr>p_user_id = 1, p_streak_days = 15, p_is_mastered = True\<rparr>,
         \<lparr>p_user_id = 1, p_streak_days = 3, p_is_mastered = False\<rparr>,
         \<lparr>p_user_id = 2, p_streak_days = 100, p_is_mastered = True\<rparr>]\<rparr>"

definition unlocked_keys :: "db \<Rightarrow> (int \<times> string \<times> rat option \<times> string) list" where
  "unlocked_keys d =
     map (\<lambda>x. (ach_user_id x, ach_achievement_type x, ach_threshold_value x, ach_title x))
       (achievements d)"

section \<open>Properties\<close>

subsection \<open>Lookup and write-back\<close>

lemma find_update_first:
  "find p xs = Some x \<Longrightarrow> p y \<Longrightarrow> find p (update_first p y xs) = Some y"
  by (induction xs) (auto split: if_splits)

lemma update_first_same:
  "find p xs = Some x \<Longrightarrow> update_first p x xs = xs"
  by (induction xs) (auto split: if_splits)

subsection \<open>The state guards of start and submit\<close>

text \<open>
  C7. For an assessment of the requesting user: \<^verbatim>\<open>start\<close> succeeds exactly when its
  status is \<^verbatim>\<open>not_started\<close> and \<^verbatim>\<open>submit\<close> exactly when it is \<^verbatim>\<open>in_progress\<close>; in
  every other status the request is answered with the invalid-state error (HTTP 400)
  and the store, hence the assessment, and the user row are returned unchanged.
\<close>

theorem start_submit_require_status:
  assumes "find (own_assessment assessment_id current_user) (assessments d) = Some a"
  shows "(if a_status a = ''not_started''
          then start_assessment assessment_id current_user now d =
                 (Inr (a\<lparr>a_status := ''in_progress'', a_start_time := Some now\<rparr>),
                  d\<lparr>assessments :=
                      update_first (own_assessment assessment_id current_user)
                        (a\<lparr>a_status := ''in_progress'', a_start_time := Some now\<rparr>)
                        (assessments d)\<rparr>)
          else start_assessment assessment_id current_user now d =
                 (Inl (HTTPException HTTP_400_BAD_REQUEST ''Assessment has already been started''), d))
       \<and> (if a_status a = ''in_progress''
          then \<not> isl (fst (submit_assessment assessment_id submission current_user now d))
          else submit_assessment assessment_id submission current_user now d =
                 (Inl (HTTPException HTTP_400_BAD_REQUEST ''Assessment is not in progress''),
                  d, current_user))"
  using assms by (simp add: start_assessment_def submit_assessment_def Let_def)

theorem start_submit_require_status_witness:
  "fst (start_assessment 7 user1 100 (quiz_db ''not_started'')) =
     Inr ((quiz ''not_started'')\<lparr>a_status := ''in_progress'', a_start_time := Some 100\<rparr>)
   \<and> submit_assessment 7 [] user1 100 (quiz_db ''not_started'') =
       (Inl (HTTPException HTTP_400_BAD_REQUEST ''Assessment is not in progress''),
        quiz_db ''not_started'', user1)"
proof -
  have found: "find (own_assessment 7 user1) (assessments (quiz_db ''not_started''))
                 = Some (quiz ''not_started'')"
    by (simp add: quiz_db_def empty_db_def quiz_def own_assessment_def user1_def)
  show ?thesis
    using start_submit_require_status [OF found, of 100 "[]"]
    by (simp add: quiz_def)
qed

subsection \<open>The grading loop\<close>

lemma foldl_dict_None:
  "(foldl (\<lambda>m q. m(q_id q \<mapsto> q)) m qs i = None) = (m i = None \<and> i \<notin> q_id ` set qs)"
  by (induction qs arbitrary: m) auto

lemma question_dict_None: "(question_dict qs i = None) = (i \<notin> q_id ` set qs)"
  by (simp add: question_dict_def foldl_dict_None)

lemma foldl_dict_Some:
  "foldl (\<lambda>m q. m(q_id q \<mapsto> q)) m qs i = Some q \<Longrightarrow> m i = Some q \<or> (q \<in> set qs \<and> q_id q = i)"
proof (induction qs arbitrary: m)
  case Nil
  then show ?case by simp
next
  case (Cons a qs)
  from Cons.IH [of "m(q_id a \<mapsto> a)"] Cons.prems
  have "(m(q_id a \<mapsto> a)) i = Some q \<or> (q \<in> set qs \<and> q_id q = i)"
    by simp
  then show ?case
    by (auto split: if_splits)
qed

lemma question_dict_Some:
  "question_dict qs i = Some q \<Longrightarrow> q \<in> set qs \<and> q_id q = i"
  using foldl_dict_Some [of Map.empty qs i q] by (simp add: question_dict_def)

lemma qdict_known: "(qdict d assessment_id i \<noteq> None) = is_question_of d assessment_id i"
  by (auto simp: question_dict_None is_question_of_def list_ex_iff)

lemma matched_ids:
  "map (\<lambda>sq. sub_question_id (fst sq)) (matched qd subs) =
     filter (\<lambda>i. qd i \<noteq> None) (map sub_question_id subs)"
  by (induction subs) (auto split: option.splits)

lemma matched_pairs:
  "(s, q) \<in> set (matched qd subs) \<Longrightarrow> s \<in> set subs \<and> qd (sub_question_id s) = Some q"
  by (induction subs) (auto split: option.splits)

lemma fold_total_points:
  "total_points (foldl (process_answer assessment_id current_user qd) g subs) =
     total_points g + points_of (matched qd subs)"
  by (induction subs arbitrary: g)
     (auto simp: process_answer_def points_of_def Let_def split: option.splits)

lemma fold_earned_points:
  "earned_points (foldl (process_answer assessment_id current_user qd) g subs) =
     earned_points g +
     points_of (filter (\<lambda>sq. answer_matches (fst sq) (snd sq)) (matched qd subs))"
  by (induction subs arbitrary: g)
     (auto simp: process_answer_def points_of_def Let_def split: option.splits)

lemma fold_correct_answers:
  "correct_answers (foldl (process_answer assessment_id current_user qd) g subs) =
     correct_answers g +
     int (length (filter (\<lambda>sq. answer_matches (fst sq) (snd sq)) (matched qd subs)))"
  by (induction subs arbitrary: g)
     (auto simp: process_answer_def Let_def split: option.splits)

lemma fold_added:
  "added (foldl (process_answer assessment_id current_user qd) g subs) =
     added g @ map (graded_answer assessment_id current_user) (matched qd subs)"
  by (induction subs arbitrary: g)
     (auto simp: process_answer_def graded_answer_def Let_def split: option.splits)

text \<open>
  Where the submitted text is not empty, the handler's test is the comparison the
  specification words: they differ only on an empty \<^verbatim>\<open>answer_text\<close> or an empty text.
\<close>

lemma answer_matches_text_equals_correct:
  assumes "sub_answer_text s \<noteq> Some []" and "submitted_text s \<noteq> Some []"
  shows "answer_matches s q = text_equals_correct s q"
  using assms
  by (auto simp: answer_matches_def text_equals_correct_def submitted_text_def py_or_def
      split: option.splits)

lemma submit_in_progress:
  assumes "find (own_assessment assessment_id current_user) (assessments d) = Some a"
      and "a_status a = ''in_progress''"
  shows "\<exists>r d' u'.
           submit_assessment assessment_id submission current_user now d = (Inr r, d', u')
         \<and> find (own_assessment assessment_id current_user) (assessments d')
             = Some (resp_assessment r)
         \<and> answers d' = answers d @
             map (graded_answer assessment_id current_user)
               (matched (qdict d assessment_id) submission)
         \<and> a_questions_answered (resp_assessment r) = int (length submission)
         \<and> a_score_percentage (resp_assessment r) =
             Some (if 0 < points_of (matched (qdict d assessment_id) submission)
                   then points_of (filter (\<lambda>sq. answer_matches (fst sq) (snd sq))
                          (matched (qdict d assessment_id) submission))
                        / points_of (matched (qdict d assessment_id) submission) * 100
                   else 0)"
proof -
  have own: "own_assessment assessment_id current_user a"
    using assms(1) by (auto dest: find_Some_iff [THEN iffD1])
  show ?thesis
    using assms own
    by (simp add: submit_assessment_def Let_def process_answers_def fold_total_points
        fold_earned_points fold_correct_answers fold_added find_update_first
        own_assessment_def)
qed

lemma eval_paris_and_unknown:
  "fst (submit_assessment 7 paris_and_unknown user1 100 (quiz_db ''in_progress'')) =
     Inr \<lparr>resp_assessment =
            \<lparr>a_id = 7, a_user_id = 1, a_subject = ''math'', a_start_time = None,
             a_end_time = Some 100, a_time_taken_minutes = None, a_questions_answered = 2,
             a_correct_answers = 1, a_score_percentage = Some 100,
             a_status = ''completed'', a_is_completed = True, a_created_at = 0\<rparr>,
          resp_score = Some 100, resp_correct_answers = 1, resp_total_questions = 2\<rparr>
   \<and> answers (fst (snd (submit_assessment 7 paris_and_unknown user1 100
         (quiz_db ''in_progress'')))) =
       [\<lparr>ans_assessment_id = 7, ans_question_id = 1, ans_user_id = 1,
         ans_answer_text = Some '' paris '', ans_selected_option = None,
         ans_is_correct = True, ans_points_earned = 1, ans_points_possible = 1\<rparr>]
   \<and> snd (snd (submit_assessment 7 paris_and_unknown user1 100 (quiz_db ''in_progress''))) =
       \<lparr>u_id = 1, u_total_study_time_minutes = 0,
        u_total_assessments_completed = 1, u_average_score = 100\<rparr>"
  by code_simp

lemma eval_paris_and_five:
  "response_score (submit_assessment 7 paris_and_five user1 100 (quiz_db ''in_progress''))
     = Some 25
   \<and> map (\<lambda>x. (ans_question_id x, ans_is_correct x, ans_points_earned x))
       (answers (fst (snd (submit_assessment 7 paris_and_five user1 100
          (quiz_db ''in_progress'')))))
     = [(1, True, 1), (2, False, 0)]"
  by code_simp

lemma found_quiz:
  "find (own_assessment 7 user1) (assessments (quiz_db st)) = Some (quiz st)"
  by (simp add: quiz_db_def empty_db_def quiz_def own_assessment_def user1_def)

subsection \<open>Which submitted answers are graded\<close>

text \<open>
  C10. When an in-progress assessment is submitted, the stored \<^verbatim>\<open>Answer\<close> rows are
  exactly those of the submitted answers whose \<^verbatim>\<open>question_id\<close> is the id of a question of
  that assessment, in submission order; an answer with another id leaves no row and
  raises nothing. The denominator of the score is the sum of \<^verbatim>\<open>points_possible\<close> over
  these graded answers only (a question nobody answered contributes nothing), and
  \<^verbatim>\<open>questions_answered\<close> is the length of the whole submission, skipped answers included.
  The assessment row with these values is the one the store holds after the request.
\<close>

theorem submit_grades_only_matched:
  assumes "find (own_assessment assessment_id current_user) (assessments d) = Some a"
      and "a_status a = ''in_progress''"
  shows "case submit_assessment assessment_id submission current_user now d of
           (res, d', current_user') \<Rightarrow>
             (case res of
                Inl e \<Rightarrow> False
              | Inr r \<Rightarrow>
                  map ans_question_id (drop (length (answers d)) (answers d')) =
                    filter (is_question_of d assessment_id) (map sub_question_id submission)
                  \<and> take (length (answers d)) (answers d') = answers d
                  \<and> find (own_assessment assessment_id current_user) (assessments d')
                      = Some (resp_assessment r)
                  \<and> a_questions_answered (resp_assessment r) = int (length submission)
                  \<and> a_score_percentage (resp_assessment r) =
                      Some (if 0 < points_of (matched (qdict d assessment_id) submission)
                            then points_of (filter (\<lambda>sq. answer_matches (fst sq) (snd sq))
                                   (matched (qdict d assessment_id) submission))
                                 / points_of (matched (qdict d assessment_id) submission) * 100
                            else 0)
                  \<and> map (\<lambda>sq. sub_question_id (fst sq))
                        (matched (qdict d assessment_id) submission) =
                      filter (is_question_of d assessment_id) (map sub_question_id submission))"
proof -
  have pred: "(\<lambda>i. qdict d assessment_id i \<noteq> None) = is_question_of d assessment_id"
    by (rule ext) (rule qdict_known)
  have ids: "map (\<lambda>sq. sub_question_id (fst sq)) (matched (qdict d assessment_id) submission)
               = filter (is_question_of d assessment_id) (map sub_question_id submission)"
    using matched_ids [of "qdict d assessment_id" submission, unfolded pred] .
  have stored: "map ans_question_id (map (graded_answer assessment_id current_user)
                   (matched (qdict d assessment_id) submission))
               = filter (is_question_of d assessment_id) (map sub_question_id submission)"
    using ids by (simp add: graded_answer_def comp_def)
  from submit_in_progress [OF assms, of submission now]
  obtain r d' u' where
    "submit_assessment assessment_id submission current_user now d = (Inr r, d', u')"
    "find (own_assessment assessment_id current_user) (assessments d')
       = Some (resp_assessment r)"
    "answers d' = answers d @
       map (graded_answer assessment_id current_user)
         (matched (qdict d assessment_id) submission)"
    "a_questions_answered (resp_assessment r) = int (length submission)"
    "a_score_percentage (resp_assessment r) =
       Some (if 0 < points_of (matched (qdict d assessment_id) submission)
             then points_of (filter (\<lambda>sq. answer_matches (fst sq) (snd sq))
                    (matched (qdict d assessment_id) submission))
                  / points_of (matched (qdict d assessment_id) submission) * 100
             else 0)"
    by blast
  then show ?thesis
    using ids stored by simp
qed

lemma eval_paris_and_unknown_stored:
  "map (\<lambda>a. (a_id a, a_status a, a_questions_answered a, a_correct_answers a,
              a_score_percentage a))
     (assessments (fst (snd (submit_assessment 7 paris_and_unknown user1 100
        (quiz_db ''in_progress''))))) = [(7, ''completed'', 2, 1, Some 100)]"
  by code_simp

theorem submit_grades_only_matched_witness:
  "map ans_question_id
     (answers (fst (snd (submit_assessment 7 paris_and_unknown user1 100
        (quiz_db ''in_progress''))))) = [1]
   \<and> response_score (submit_assessment 7 paris_and_unknown user1 100
         (quiz_db ''in_progress'')) = Some 100
   \<and> map_sum id (\<lambda>r. a_questions_answered (resp_assessment r))
         (fst (submit_assessment 7 paris_and_unknown user1 100 (quiz_db ''in_progress'')))
       = Inr 2
   \<and> map (\<lambda>a. (a_id a, a_status a, a_questions_answered a, a_correct_answers a,
                a_score_percentage a))
       (assessments (fst (snd (submit_assessment 7 paris_and_unknown user1 100
          (quiz_db ''in_progress''))))) = [(7, ''completed'', 2, 1, Some 100)]"
proof -
  have status: "a_status (quiz ''in_progress'') = ''in_progress''"
    by (simp add: quiz_def)
  show ?thesis
    using submit_grades_only_matched [OF found_quiz status, of paris_and_unknown 100]
      eval_paris_and_unknown_stored
    by (simp add: eval_paris_and_unknown response_score_def)
qed

subsection \<open>The score of a submission\<close>

text \<open>
  C1, as amended. When an in-progress assessment is submitted and the graded answers
  have total points \<open>> 0\<close>, the stored \<^verbatim>\<open>score_percentage\<close> is
  \<open>earned_points / total_points \<times> 100\<close>, where \<open>earned_points\<close> sums
  \<^verbatim>\<open>points_possible\<close> over exactly the graded answers that have a non-empty text
  (\<^verbatim>\<open>answer_text\<close>, or \<^verbatim>\<open>selected_option\<close> when \<^verbatim>\<open>answer_text\<close> is absent or empty) whose
  trimmed, lower-cased form equals the trimmed, lower-cased \<^verbatim>\<open>correct_answer\<close>; each such
  answer is stored as correct with \<^verbatim>\<open>points_earned = points_possible\<close>, every other graded
  answer as incorrect with \<^verbatim>\<open>points_earned = 0\<close>.
\<close>

theorem submit_score_percentage:
  assumes "find (own_assessment assessment_id current_user) (assessments d) = Some a"
      and "a_status a = ''in_progress''"
      and "0 < points_of (matched (qdict d assessment_id) submission)"
  shows "\<exists>r d' u'.
           submit_assessment assessment_id submission current_user now d = (Inr r, d', u')
         \<and> find (own_assessment assessment_id current_user) (assessments d')
             = Some (resp_assessment r)
         \<and> a_score_percentage (resp_assessment r) =
             Some (points_of (filter (\<lambda>sq. answer_matches (fst sq) (snd sq))
                     (matched (qdict d assessment_id) submission))
                   / points_of (matched (qdict d assessment_id) submission) * 100)
         \<and> map (\<lambda>x. (ans_is_correct x, ans_points_earned x))
               (drop (length (answers d)) (answers d')) =
             map (\<lambda>sq. if answer_matches (fst sq) (snd sq)
                        then (True, q_points_possible (snd sq)) else (False, 0))
               (matched (qdict d assessment_id) submission)"
proof -
  from submit_in_progress [OF assms(1,2), of submission now]
  obtain r d' u' where
    out: "submit_assessment assessment_id submission current_user now d = (Inr r, d', u')"
    and stored: "find (own_assessment assessment_id current_user) (assessments d')
                   = Some (resp_assessment r)"
    and rows: "answers d' = answers d @
                 map (graded_answer assessment_id current_user)
                   (matched (qdict d assessment_id) submission)"
    and score: "a_score_percentage (resp_assessment r) =
       Some (if 0 < points_of (matched (qdict d assessment_id) submission)
             then points_of (filter (\<lambda>sq. answer_matches (fst sq) (snd sq))
                    (matched (qdict d assessment_id) submission))
                  / points_of (matched (qdict d assessment_id) submission) * 100
             else 0)"
    by blast
  have marks: "map (\<lambda>x. (ans_is_correct x, ans_points_earned x))
                 (drop (length (answers d)) (answers d')) =
               map (\<lambda>sq. if answer_matches (fst sq) (snd sq)
                          then (True, q_points_possible (snd sq)) else (False, 0))
                 (matched (qdict d assessment_id) submission)"
    by (simp add: rows graded_answer_def comp_def)
  show ?thesis
    using out stored score marks assms(3) by simp
qed

theorem submit_score_percentage_witness:
  "response_score (submit_assessment 7 paris_and_five user1 100 (quiz_db ''in_progress''))
     = Some 25
   \<and> map (\<lambda>x. (ans_question_id x, ans_is_correct x, ans_points_earned x))
       (answers (fst (snd (submit_assessment 7 paris_and_five user1 100
          (quiz_db ''in_progress'')))))
     = [(1, True, 1), (2, False, 0)]"
proof -
  have status: "a_status (quiz ''in_progress'') = ''in_progress''"
    by (simp add: quiz_def)
  have positive: "0 < points_of (matched (qdict (quiz_db ''in_progress'') 7) paris_and_five)"
    by code_simp
  show ?thesis
    using submit_score_percentage [OF found_quiz status positive, of 100] eval_paris_and_five
    by simp
qed

text \<open>
  C1 as the specification words it fails on an empty text: for a question whose correct
  answer is the empty string and a submitted answer whose \<^verbatim>\<open>answer_text\<close> and
  \<^verbatim>\<open>selected_option\<close> are both empty, the trimmed texts are equal, so the worded score is
  100, while the handler (\<^verbatim>\<open>if user_answer and ...\<close>) marks the answer incorrect and
  stores 0.
\<close>

theorem submit_empty_text_counterexample:
  "response_score (submit_assessment 7 blank_submission user1 100 blank_db) = Some 0
   \<and> 0 < points_of (matched (qdict blank_db 7) blank_submission)
   \<and> specified_score (qdict blank_db 7) blank_submission = 100"
  by code_simp

subsection \<open>Completing a learning session\<close>

text \<open>
  C2, as amended. One call of the completion action on a session of the requesting user
  stamps the end time, sets the duration to end minus start in whole minutes and adds
  that duration to the user's \<^verbatim>\<open>total_study_time_minutes\<close> once in this call; a session
  completed 45 minutes after its start adds exactly 45. The handler does not look at
  \<^verbatim>\<open>is_completed\<close>: what a repeated call does is stated by the counterexample below.
\<close>

theorem complete_session_adds_duration:
  assumes "find (own_session session_id current_user) (learning_sessions d) = Some s"
      and "ls_start_time s = Some start_time"
  shows "\<exists>s' d' u'.
           complete_learning_session session_id current_user now d = (Inr s', d', u')
         \<and> find (own_session session_id current_user) (learning_sessions d') = Some s'
         \<and> ls_is_completed s'
         \<and> ls_end_time s' = Some now
         \<and> ls_duration_minutes s' = Some (duration_minutes now start_time)
         \<and> u_total_study_time_minutes u' =
             u_total_study_time_minutes current_user + duration_minutes now start_time
         \<and> (now = start_time + 45 * 60000000 \<longrightarrow>
              u_total_study_time_minutes u' = u_total_study_time_minutes current_user + 45)"
proof -
  have own: "own_session session_id current_user s"
    using assms(1) by (auto dest: find_Some_iff [THEN iffD1])
  have "duration_minutes (start_time + 45 * 60000000) start_time = 45"
    by (simp add: duration_minutes_def py_int_div_def)
  then show ?thesis
    using assms own
    by (simp add: complete_learning_session_def Let_def find_update_first own_session_def)
qed

lemma eval_completed_once:
  "fst completed_once =
     Inr \<lparr>ls_id = 3, ls_user_id = 1, ls_start_time = Some 0,
          ls_end_time = Some 2700000000, ls_duration_minutes = Some 45,
          ls_completion_percentage = 100, ls_is_completed = True\<rparr>
   \<and> u_total_study_time_minutes (snd (snd completed_once)) = 45"
  by code_simp

theorem complete_session_adds_duration_witness:
  "fst completed_once =
     Inr \<lparr>ls_id = 3, ls_user_id = 1, ls_start_time = Some 0,
          ls_end_time = Some 2700000000, ls_duration_minutes = Some 45,
          ls_completion_percentage = 100, ls_is_completed = True\<rparr>
   \<and> u_total_study_time_minutes (snd (snd completed_once)) = 45"
proof -
  have found: "find (own_session 3 user1) (learning_sessions session_db) =
                 Some (hd (learning_sessions session_db))"
    by (simp add: session_db_def empty_db_def own_session_def user1_def)
  have started: "ls_start_time (hd (learning_sessions session_db)) = Some 0"
    by (simp add: session_db_def empty_db_def)
  show ?thesis
    using complete_session_adds_duration [OF found started, of "minutes_us 45"]
      eval_completed_once
    by simp
qed

text \<open>
  C2 as the specification words it (the duration is rolled into the total exactly once)
  fails under a repeated completion: a session completed 45 minutes after its start and
  completed again at 60 minutes ends with a duration of 60, and the user's total has
  grown by 45 + 60 = 105.
\<close>

theorem complete_session_twice_counterexample:
  "u_total_study_time_minutes user1 = 0
   \<and> u_total_study_time_minutes (snd (snd completed_once)) = 45
   \<and> map ls_duration_minutes (learning_sessions (fst (snd completed_twice))) = [Some 60]
   \<and> u_total_study_time_minutes (snd (snd completed_twice)) = 105"
  by code_simp

subsection \<open>Completing a recommendation\<close>

text \<open>
  C8. For a recommendation of the requesting user, \<^verbatim>\<open>complete\<close> succeeds exactly when it
  has been accepted (\<^verbatim>\<open>is_accepted\<close> is true); when it was declined or never responded to,
  the request is answered with the invalid-state error (HTTP 400) and the store, hence
  the recommendation, is returned unchanged.
\<close>

theorem complete_requires_accepted:
  assumes "find (own_recommendation recommendation_id current_user) (recommendations d) = Some r"
  shows "if r_is_accepted r = Some True
         then complete_recommendation recommendation_id current_user now d =
                (Inr (r\<lparr>r_is_completed := True, r_completed_at := Some now,
                        r_status := ''completed''\<rparr>),
                 d\<lparr>recommendations :=
                     update_first (own_recommendation recommendation_id current_user)
                       (r\<lparr>r_is_completed := True, r_completed_at := Some now,
                          r_status := ''completed''\<rparr>)
                       (recommendations d)\<rparr>)
         else complete_recommendation recommendation_id current_user now d =
                (Inl (HTTPException HTTP_400_BAD_REQUEST
                        ''Cannot complete a recommendation that wasn't accepted''), d)"
  using assms by (simp add: complete_recommendation_def Let_def)

theorem complete_requires_accepted_witness:
  "complete_recommendation 5 user1 9 (suggestion_db None) =
     (Inl (HTTPException HTTP_400_BAD_REQUEST
             ''Cannot complete a recommendation that wasn't accepted''), suggestion_db None)
   \<and> complete_recommendation 5 user1 9 (suggestion_db (Some False)) =
     (Inl (HTTPException HTTP_400_BAD_REQUEST
             ''Cannot complete a recommendation that wasn't accepted''),
      suggestion_db (Some False))
   \<and> fst (complete_recommendation 5 user1 9 (suggestion_db (Some True))) =
     Inr ((suggestion (Some True))\<lparr>r_is_completed := True, r_completed_at := Some 9,
                                   r_status := ''completed''\<rparr>)"
proof -
  have found: "find (own_recommendation 5 user1) (recommendations (suggestion_db acc)) =
                 Some (suggestion acc)" for acc
    by (simp add: suggestion_db_def empty_db_def suggestion_def own_recommendation_def
        user1_def)
  show ?thesis
    using complete_requires_accepted [OF found, of None 9]
      complete_requires_accepted [OF found, of "Some False" 9]
      complete_requires_accepted [OF found, of "Some True" 9]
    by (simp add: suggestion_def)
qed

subsection \<open>Sums over \<^verbatim>\<open>range(n)\<close> and \<^verbatim>\<open>enumerate\<close>\<close>

lemma sum_list_range: "sum_list (map f [0..<n]) = (\<Sum>i<n. f i)"
  for f :: "nat \<Rightarrow> 'a::comm_monoid_add"
  by (simp add: interv_sum_list_conv_sum_set_nat atLeast0LessThan)

lemma sum_list_index: "sum_list xs = (\<Sum>i<length xs. xs ! i)"
  for xs :: "'a::comm_monoid_add list"
  by (simp add: sum_list_sum_nth atLeast0LessThan)

lemma map_enumerate_index:
  "map (\<lambda>(i, x). f i x) (enumerate 0 xs) = map (\<lambda>i. f i (xs ! i)) [0..<length xs]"
  by (rule nth_equalityI) (simp_all add: nth_enumerate_eq)

lemma sum_index_closed: "2 * (\<Sum>i<n. of_nat i) = (of_nat n :: rat) * (of_nat n - 1)"
  by (induction n) (simp_all add: algebra_simps)

lemma sum_square_closed:
  "6 * (\<Sum>i<n. (of_nat i)\<^sup>2) = (of_nat n :: rat) * (of_nat n - 1) * (2 * of_nat n - 1)"
  by (induction n) (simp_all add: algebra_simps power2_eq_square)

lemma ols_denominator_closed:
  "12 * ols_denominator n = (of_nat n)\<^sup>2 * ((of_nat n)\<^sup>2 - 1)"
proof -
  define a :: rat where "a = (\<Sum>i<n. of_nat i)"
  define b :: rat where "b = (\<Sum>i<n. (of_nat i)\<^sup>2)"
  define m :: rat where "m = of_nat n"
  have a: "2 * a = m * (m - 1)"
    unfolding a_def m_def by (rule sum_index_closed)
  have b: "6 * b = m * (m - 1) * (2 * m - 1)"
    unfolding b_def m_def by (rule sum_square_closed)
  have "12 * (m * b - a\<^sup>2) = 2 * m * (6 * b) - 3 * (2 * a)\<^sup>2"
    by (simp add: algebra_simps power2_eq_square)
  also have "\<dots> = m\<^sup>2 * (m\<^sup>2 - 1)"
    unfolding a b by (simp add: algebra_simps power2_eq_square)
  finally show ?thesis
    by (simp add: ols_denominator_def a_def b_def m_def)
qed

lemma ols_denominator_pos: "2 \<le> n \<Longrightarrow> 0 < ols_denominator n"
proof -
  assume "2 \<le> n"
  then have "(2::rat) \<le> of_nat n"
    by (metis of_nat_le_iff of_nat_numeral)
  then have m: "(1::rat) < of_nat n"
    by simp
  then have "(1::rat) * 1 < of_nat n * of_nat n"
    by (intro mult_strict_mono) simp_all
  with m have "(0::rat) < (of_nat n)\<^sup>2 * ((of_nat n)\<^sup>2 - 1)"
    by (simp add: power2_eq_square)
  then show ?thesis
    using ols_denominator_closed [of n] by simp
qed

lemma trend_denominator:
  "of_int (int n * sum_list (map (\<lambda>i. int i * int i) [0..<n])
           - sum_list (map int [0..<n]) * sum_list (map int [0..<n]))
     = ols_denominator n"
  by (simp add: ols_denominator_def sum_list_range power2_eq_square)

lemma trend_numerator:
  "of_int (int (length scores)) * sum_list (map (\<lambda>(i, score). of_nat i * score) (enumerate 0 scores))
     - of_int (sum_list (map int [0..<length scores])) * sum_list scores
   = of_nat (length scores) * (\<Sum>i<length scores. of_nat i * scores ! i)
     - (\<Sum>i<length scores. of_nat i) * (\<Sum>i<length scores. scores ! i)"
  for scores :: "rat list"
  by (simp add: map_enumerate_index sum_list_range sum_list_index [of scores])

lemma improvement_trend_slope:
  "improvement_trend scores = Inr (if length scores \<le> 1 then 0 else ols_slope scores)"
proof (cases "length scores \<le> 1")
  case True
  then show ?thesis
    by (simp add: improvement_trend_def)
next
  case False
  then have "ols_denominator (length scores) \<noteq> 0"
    using ols_denominator_pos [of "length scores"] by simp
  with False show ?thesis
    unfolding improvement_trend_def Let_def trend_denominator trend_numerator
    by (simp add: py_truediv_def ols_slope_def Let_def)
qed
text \<open>The slope is the one of the line of least squared error.\<close>

lemma least_squares_general:
  fixes x y :: "nat \<Rightarrow> rat"
  assumes n: "(of_nat n :: rat) \<noteq> 0"
      and D: "of_nat n * (\<Sum>i<n. (x i)\<^sup>2) - (\<Sum>i<n. x i)\<^sup>2 \<noteq> 0"
      and b0: "b0 = (of_nat n * (\<Sum>i<n. x i * y i) - (\<Sum>i<n. x i) * (\<Sum>i<n. y i))
                    / (of_nat n * (\<Sum>i<n. (x i)\<^sup>2) - (\<Sum>i<n. x i)\<^sup>2)"
      and a0: "a0 = ((\<Sum>i<n. y i) - b0 * (\<Sum>i<n. x i)) / of_nat n"
  shows "(\<Sum>i<n. (y i - a0 - b0 * x i)\<^sup>2) \<le> (\<Sum>i<n. (y i - a - b * x i)\<^sup>2)"
proof -
  define Sx where "Sx = (\<Sum>i<n. x i)"
  define Sy where "Sy = (\<Sum>i<n. y i)"
  define Sxy where "Sxy = (\<Sum>i<n. x i * y i)"
  define Sxx where "Sxx = (\<Sum>i<n. (x i)\<^sup>2)"
  define m :: rat where "m = of_nat n"
  define r where "r i = y i - a0 - b0 * x i" for i
  define da where "da = a0 - a"
  define db where "db = b0 - b"
  have D': "m * Sxx - Sx\<^sup>2 \<noteq> 0"
    using D by (simp add: m_def Sxx_def Sx_def)
  have b0': "b0 * (m * Sxx - Sx\<^sup>2) = m * Sxy - Sx * Sy"
    using D' by (simp add: b0 m_def Sxx_def Sx_def Sxy_def Sy_def)
  have a0': "m * a0 = Sy - b0 * Sx"
    using n by (simp add: a0 m_def Sx_def Sy_def)
  have r_sum: "(\<Sum>i<n. r i) = Sy - m * a0 - b0 * Sx"
    by (simp add: r_def sum_subtractf sum_distrib_left Sy_def Sx_def m_def)
  then have N1: "(\<Sum>i<n. r i) = 0"
    using a0' by simp
  have "r i * x i = x i * y i - a0 * x i - b0 * (x i)\<^sup>2" for i
    by (simp add: r_def algebra_simps power2_eq_square)
  then have rx_sum: "(\<Sum>i<n. r i * x i) = Sxy - a0 * Sx - b0 * Sxx"
    by (simp add: sum_subtractf sum_distrib_left Sxy_def Sx_def Sxx_def)
  have "m * (Sxy - a0 * Sx - b0 * Sxx) = m * Sxy - (m * a0) * Sx - b0 * (m * Sxx)"
    by (simp add: algebra_simps)
  also have "\<dots> = m * Sxy - Sx * Sy - b0 * (m * Sxx - Sx\<^sup>2)"
    unfolding a0' by (simp add: algebra_simps power2_eq_square)
  also have "\<dots> = 0"
    unfolding b0' by simp
  finally have N2: "(\<Sum>i<n. r i * x i) = 0"
    using n by (simp add: rx_sum m_def)
  have expand: "(y i - a - b * x i)\<^sup>2 =
                (r i)\<^sup>2 + (2 * da * r i + 2 * db * (r i * x i) + (da + db * x i)\<^sup>2)" for i
    by (simp add: r_def da_def db_def power2_eq_square algebra_simps)
  have "(\<Sum>i<n. (y i - a - b * x i)\<^sup>2) =
          (\<Sum>i<n. (r i)\<^sup>2) + (2 * da * (\<Sum>i<n. r i) + 2 * db * (\<Sum>i<n. r i * x i)
            + (\<Sum>i<n. (da + db * x i)\<^sup>2))"
    unfolding expand by (simp add: sum.distrib sum_distrib_left)
  also have "\<dots> = (\<Sum>i<n. (r i)\<^sup>2) + (\<Sum>i<n. (da + db * x i)\<^sup>2)"
    by (simp add: N1 N2)
  finally have "(\<Sum>i<n. (y i - a - b * x i)\<^sup>2) =
                  (\<Sum>i<n. (r i)\<^sup>2) + (\<Sum>i<n. (da + db * x i)\<^sup>2)" .
  moreover have "0 \<le> (\<Sum>i<n. (da + db * x i)\<^sup>2)"
    by (rule sum_nonneg) simp
  ultimately show ?thesis
    by (simp add: r_def)
qed

lemma ols_slope_least_squares:
  assumes "2 \<le> length ys"
  shows "squared_error ys (ols_intercept ys) (ols_slope ys) \<le> squared_error ys a b"
proof -
  have n: "(of_nat (length ys) :: rat) \<noteq> 0"
    using assms by auto
  have D: "of_nat (length ys) * (\<Sum>i<length ys. (of_nat i :: rat)\<^sup>2)
             - (\<Sum>i<length ys. of_nat i)\<^sup>2 \<noteq> 0"
    using ols_denominator_pos [OF assms] by (simp add: ols_denominator_def)
  show ?thesis
    unfolding squared_error_def
    by (rule least_squares_general [OF n D])
       (simp_all add: ols_slope_def ols_denominator_def ols_intercept_def Let_def)
qed

subsection \<open>Means of scores\<close>

lemma py_mean_scores_mean:
  assumes "list_all (\<lambda>a. a_score_percentage a \<noteq> None) xs" and "xs \<noteq> []"
  shows "py_mean_scores xs = Inr (mean (map score_of xs))"
  using assms
  by (simp add: py_mean_scores_def py_sum_scores_def bind_error_def py_truediv_def mean_def)

lemma list_all_take: "list_all P xs \<Longrightarrow> list_all P (take k xs)"
  by (auto simp: list_all_iff dest: in_set_takeD)

lemma list_all_drop: "list_all P xs \<Longrightarrow> list_all P (drop k xs)"
  by (auto simp: list_all_iff dest: in_set_dropD)

lemma overview_average_score_value:
  assumes "list_all (\<lambda>a. a_score_percentage a \<noteq> None) xs"
  shows "overview_average_score xs = Inr (if xs = [] then 0 else mean (map score_of xs))"
  using assms by (simp add: overview_average_score_def py_mean_scores_mean)

lemma overview_improvement_rate_value:
  assumes "list_all (\<lambda>a. a_score_percentage a \<noteq> None) xs"
  shows "overview_improvement_rate xs =
           Inr (if length xs < 2 then 0
                else if 0 < mean (take (length xs div 2) (map score_of xs))
                then (mean (drop (length xs div 2) (map score_of xs))
                        - mean (take (length xs div 2) (map score_of xs)))
                     / mean (take (length xs div 2) (map score_of xs)) * 100
                else 0)"
proof (cases "length xs < 2")
  case True
  then show ?thesis
    by (simp add: overview_improvement_rate_def)
next
  case False
  then have first: "take (length xs div 2) xs \<noteq> []"
    and second: "drop (length xs div 2) xs \<noteq> []"
    by auto
  have "py_mean_scores (take (length xs div 2) xs) =
          Inr (mean (take (length xs div 2) (map score_of xs)))"
    using py_mean_scores_mean [OF list_all_take [OF assms] first] by (simp add: take_map)
  moreover have "py_mean_scores (drop (length xs div 2) xs) =
          Inr (mean (drop (length xs div 2) (map score_of xs)))"
    using py_mean_scores_mean [OF list_all_drop [OF assms] second] by (simp add: drop_map)
  ultimately show ?thesis
    using False by (simp add: overview_improvement_rate_def Let_def bind_error_def)
qed

subsection \<open>The average score of the overview\<close>

lemma scores_named:
  "map a_score_percentage xs = map Some scores \<Longrightarrow>
     list_all (\<lambda>a. a_score_percentage a \<noteq> None) xs \<and> map score_of xs = scores"
proof (induction xs arbitrary: scores)
  case Nil
  then show ?case by simp
next
  case (Cons a xs)
  then obtain x rest where "scores = x # rest" "a_score_percentage a = Some x"
    "map a_score_percentage xs = map Some rest"
    by (cases scores) auto
  with Cons.IH [of rest] show ?case
    by (simp add: score_of_def)
qed

text \<open>
  C9. The overview's \<^verbatim>\<open>average_score\<close> (before the response rounds it) is the
  arithmetic mean of \<^verbatim>\<open>score_percentage\<close> over exactly the assessments of the store
  that belong to the requesting user, are completed and were created at or after
  \<open>now - days\<close>; no error is raised; when the store holds no such assessment (whatever
  other assessments it holds) the handler returns without error and the average score
  is exactly 0. \<open>scores\<close> names the scores of the selected assessments, which are
  present (submission sets them).
\<close>

theorem overview_average_score_mean:
  assumes "map a_score_percentage
             (filter (\<lambda>a. a_user_id a = u_id current_user
                          \<and> now - days * 86400000000 \<le> a_created_at a
                          \<and> a_is_completed a)
                (assessments d)) = map Some scores"
  shows "map_sum id ov_average_score (get_analytics_overview current_user now days d) =
           Inr (if scores = [] then 0 else sum_list scores / of_nat (length scores))
       \<and> map_sum id ov_total_assessments (get_analytics_overview current_user now days d) =
           Inr (length scores)
       \<and> (scores = [] \<longrightarrow>
            get_analytics_overview current_user now days d =
              Inr \<lparr>ov_total_assessments = 0, ov_average_score = 0, ov_improvement_rate = 0\<rparr>)"
proof -
  define xs where "xs = overview_assessments current_user (now - timedelta_days days) d"
  have named: "map a_score_percentage xs = map Some scores"
    using assms by (simp add: xs_def overview_assessments_def timedelta_days_def)
  have present: "list_all (\<lambda>a. a_score_percentage a \<noteq> None) xs"
    and scores: "map score_of xs = scores"
    using scores_named [OF named] by simp_all
  have len: "length xs = length scores"
    using scores by (metis length_map)
  then have empty: "(xs = []) = (scores = [])"
    by (metis length_0_conv)
  obtain rate where rate: "overview_improvement_rate xs = Inr rate"
    and short: "length xs < 2 \<Longrightarrow> rate = 0"
    using overview_improvement_rate_value [OF present] by simp
  have out: "get_analytics_overview current_user now days d =
               Inr \<lparr>ov_total_assessments = length scores,
                    ov_average_score =
                      (if scores = [] then 0 else sum_list scores / of_nat (length scores)),
                    ov_improvement_rate = rate\<rparr>"
    using overview_average_score_value [OF present] rate
    by (simp add: get_analytics_overview_def Let_def bind_error_def mean_def scores len empty
        flip: xs_def)
  show ?thesis
    unfolding out using short len by auto
qed

lemma eval_overview_60_90:
  "get_analytics_overview user1 (minutes_us 10) 1 (scores_db [60, 90]) =
     Inr \<lparr>ov_total_assessments = 2, ov_average_score = 75, ov_improvement_rate = 50\<rparr>
   \<and> get_analytics_overview user1 (minutes_us 10) 1 empty_db =
     Inr \<lparr>ov_total_assessments = 0, ov_average_score = 0, ov_improvement_rate = 0\<rparr>"
  by code_simp

lemma selected_mixed:
  "map a_score_percentage
     (filter (\<lambda>a. a_user_id a = u_id user1
                  \<and> timedelta_days 3 - 1 * 86400000000 \<le> a_created_at a
                  \<and> a_is_completed a)
        (assessments mixed_db)) = map Some [60, 90]
   \<and> map a_score_percentage
     (filter (\<lambda>a. a_user_id a = u_id user1
                  \<and> timedelta_days 3 - 1 * 86400000000 \<le> a_created_at a
                  \<and> a_is_completed a)
        (assessments excluded_db)) = map Some []"
  by code_simp

theorem overview_average_score_mean_witness:
  "map_sum id ov_average_score
     (get_analytics_overview user1 (timedelta_days 3) 1 mixed_db) = Inr 75
   \<and> map_sum id ov_total_assessments
     (get_analytics_overview user1 (timedelta_days 3) 1 mixed_db) = Inr 2
   \<and> get_analytics_overview user1 (timedelta_days 3) 1 excluded_db =
       Inr \<lparr>ov_total_assessments = 0, ov_average_score = 0, ov_improvement_rate = 0\<rparr>"
  using overview_average_score_mean [OF conjunct1 [OF selected_mixed]]
    overview_average_score_mean [OF conjunct2 [OF selected_mixed]]
  by simp

subsection \<open>The improvement rate of the overview\<close>

text \<open>
  C5, as amended. The overview's \<^verbatim>\<open>improvement_rate\<close> (before the response rounds it)
  is computed by splitting the list of the requesting user's completed assessments
  created at or after \<open>now - days\<close>, in the order the query returns it, at its midpoint
  by integer floor division, taking the
  mean \<^verbatim>\<open>score_percentage\<close> of each half and returning
  \<open>(secondHalfMean - firstHalfMean) / firstHalfMean \<times> 100\<close>; it is 0 when the first
  half's mean is not positive (zero or negative) or fewer than 2 completed assessments
  exist, and no error is raised. Where the first half's mean is not negative, this is the
  rate the specification words; for two assessments scoring 60 then 90 it is 50.
\<close>

theorem overview_improvement_rate_halves:
  assumes "map a_score_percentage
             (filter (\<lambda>a. a_user_id a = u_id current_user
                          \<and> now - days * 86400000000 \<le> a_created_at a
                          \<and> a_is_completed a)
                (assessments d)) = map Some scores"
  shows "map_sum id ov_improvement_rate (get_analytics_overview current_user now days d) =
           Inr (if length scores < 2 \<or> mean (take (length scores div 2) scores) \<le> 0
                then 0
                else (mean (drop (length scores div 2) scores)
                        - mean (take (length scores div 2) scores))
                     / mean (take (length scores div 2) scores) * 100)
       \<and> (0 \<le> mean (take (length scores div 2) scores) \<longrightarrow>
            map_sum id ov_improvement_rate (get_analytics_overview current_user now days d) =
              Inr (specified_improvement_rate scores))"
proof -
  define xs where "xs = overview_assessments current_user (now - timedelta_days days) d"
  have named: "map a_score_percentage xs = map Some scores"
    using assms by (simp add: xs_def overview_assessments_def timedelta_days_def)
  have present: "list_all (\<lambda>a. a_score_percentage a \<noteq> None) xs"
    and scores: "scores = map score_of xs"
    using scores_named [OF named] by simp_all
  have rate: "map_sum id ov_improvement_rate (get_analytics_overview current_user now days d) =
          Inr (if length scores < 2 then 0
               else if 0 < mean (take (length scores div 2) scores)
               then (mean (drop (length scores div 2) scores)
                       - mean (take (length scores div 2) scores))
                    / mean (take (length scores div 2) scores) * 100
               else 0)"
    using overview_average_score_value [OF present] overview_improvement_rate_value [OF present]
    by (simp add: get_analytics_overview_def Let_def bind_error_def scores flip: xs_def)
  show ?thesis
    unfolding rate by (auto simp: specified_improvement_rate_def Let_def)
qed

lemma selected_60_90:
  "map a_score_percentage
     (filter (\<lambda>a. a_user_id a = u_id user1
                  \<and> minutes_us 10 - 1 * 86400000000 \<le> a_created_at a
                  \<and> a_is_completed a)
        (assessments (scores_db [60, 90]))) = map Some [60, 90]"
  by code_simp

theorem overview_improvement_rate_halves_witness:
  "map_sum id ov_improvement_rate
     (get_analytics_overview user1 (minutes_us 10) 1 (scores_db [60, 90])) = Inr 50
   \<and> map_sum id ov_improvement_rate
     (get_analytics_overview user1 (timedelta_days 3) 1 mixed_db) = Inr 50"
  using overview_improvement_rate_halves [OF selected_60_90]
    overview_improvement_rate_halves [OF conjunct1 [OF selected_mixed]]
    eval_overview_60_90
  by (simp add: mean_def)

text \<open>
  C5 as the specification words it fails on a negative first-half mean: for scores
  \<open>-100\<close> then \<open>50\<close> the worded rate is \<open>(50 - (-100)) / (-100) \<times> 100 = -150\<close>,
  while the handler's guard \<^verbatim>\<open>if first_avg > 0 else 0\<close> returns 0. A score of \<open>-100\<close> is
  what a submission stores when the only correct answer is to a question worth \<open>-1\<close>
  point and a question worth \<open>2\<close> points is answered wrongly.
\<close>

theorem overview_negative_first_half_counterexample:
  "map_sum id ov_improvement_rate
     (get_analytics_overview user1 (minutes_us 10) 1 (scores_db [- 100, 50])) = Inr 0
   \<and> specified_improvement_rate [- 100, 50] = - 150
   \<and> response_score (submit_assessment 7 penalty_submission user1 100 penalty_db)
       = Some (- 100)"
  by code_simp

subsection \<open>The improvement trend of the assessment analytics\<close>

lemma analytics_assessments_sorted:
  "sorted (map a_created_at (analytics_assessments current_user now days subject d))"
  by (simp add: analytics_assessments_def)

text \<open>
  C6. The improvement trend of the assessment analytics (before the response rounds
  it) is the least-squares slope of the scores against their index \<open>0..n-1\<close> in
  creation order, \<open>(n\<Sigma>xy - \<Sigma>x\<Sigma>y) / (n\<Sigma>x\<^sup>2 - (\<Sigma>x)\<^sup>2)\<close>; it is 0 for \<open>n \<le> 1\<close>; for every
  \<open>n \<ge> 2\<close> the denominator is not zero (it is \<open>n\<^sup>2(n\<^sup>2 - 1)/12\<close>), so the division never
  raises, and no line has a smaller squared error against the scores than the one with
  this slope.
\<close>

theorem analytics_trend_is_ols_slope:
  "improvement_trend scores = Inr (if length scores \<le> 1 then 0 else ols_slope scores)
   \<and> (2 \<le> n \<longrightarrow> ols_denominator n \<noteq> 0 \<and> 12 * ols_denominator n = (of_nat n)\<^sup>2 * ((of_nat n)\<^sup>2 - 1))
   \<and> (2 \<le> length scores \<longrightarrow>
        squared_error scores (ols_intercept scores) (ols_slope scores)
          \<le> squared_error scores a b)
   \<and> sorted (map a_created_at (analytics_assessments current_user now days subject d))
   \<and> (list_all (\<lambda>a. a_score_percentage a \<noteq> None)
         (analytics_assessments current_user now days subject d) \<longrightarrow>
        map_sum id perf_improvement_trend
          (get_assessment_analytics current_user now days subject d) =
        Inr (if length (analytics_assessments current_user now days subject d) \<le> 1 then 0
             else ols_slope
                    (map score_of (analytics_assessments current_user now days subject d))))"
proof -
  have handler:
    "map_sum id perf_improvement_trend
       (get_assessment_analytics current_user now days subject d) =
     Inr (if length (analytics_assessments current_user now days subject d) \<le> 1 then 0
          else ols_slope
                 (map score_of (analytics_assessments current_user now days subject d)))"
    if "list_all (\<lambda>a. a_score_percentage a \<noteq> None)
          (analytics_assessments current_user now days subject d)"
  proof (cases "analytics_assessments current_user now days subject d = []")
    case True
    then show ?thesis
      by (simp add: get_assessment_analytics_def)
  next
    case False
    then show ?thesis
      using py_mean_scores_mean [OF that False]
      by (simp add: get_assessment_analytics_def Let_def bind_error_def
          improvement_trend_slope)
  qed
  show ?thesis
  proof (intro conjI)
    show "improvement_trend scores = Inr (if length scores \<le> 1 then 0 else ols_slope scores)"
      by (rule improvement_trend_slope)
    show "2 \<le> n \<longrightarrow> ols_denominator n \<noteq> 0
            \<and> 12 * ols_denominator n = (of_nat n)\<^sup>2 * ((of_nat n)\<^sup>2 - 1)"
      using ols_denominator_pos [of n] ols_denominator_closed [of n] by auto
    show "2 \<le> length scores \<longrightarrow>
            squared_error scores (ols_intercept scores) (ols_slope scores)
              \<le> squared_error scores a b"
      using ols_slope_least_squares [of scores a b] by blast
    show "sorted (map a_created_at (analytics_assessments current_user now days subject d))"
      by (rule analytics_assessments_sorted)
    show "list_all (\<lambda>a. a_score_percentage a \<noteq> None)
            (analytics_assessments current_user now days subject d) \<longrightarrow>
          map_sum id perf_improvement_trend
            (get_assessment_analytics current_user now days subject d) =
          Inr (if length (analytics_assessments current_user now days subject d) \<le> 1 then 0
               else ols_slope
                      (map score_of (analytics_assessments current_user now days subject d)))"
      using handler by blast
  qed
qed

lemma eval_trend_60_90_70:
  "improvement_trend [60, 90, 70] = Inr 5
   \<and> get_assessment_analytics user1 (minutes_us 10) 1 None (scores_db [60, 90, 70]) =
       Inr \<lparr>perf_total_assessments = 3, perf_average_score = 220 / 3,
            perf_improvement_trend = 5\<rparr>
   \<and> improvement_trend [80] = Inr 0"
  by code_simp

theorem analytics_trend_is_ols_slope_witness:
  "improvement_trend [60, 90, 70] = Inr 5
   \<and> ols_denominator 3 = 6
   \<and> map_sum id perf_improvement_trend
       (get_assessment_analytics user1 (minutes_us 10) 1 None (scores_db [60, 90, 70])) = Inr 5
   \<and> improvement_trend [80] = Inr 0"
  using analytics_trend_is_ols_slope [of "[60, 90, 70]" 3 0 0 user1 "minutes_us 10" 1 None
      "scores_db [60, 90, 70]"] eval_trend_60_90_70
  by simp

subsection \<open>Write-back of the first matching row\<close>

lemma update_first_set: "x \<in> set (update_first P y xs) \<Longrightarrow> x = y \<or> x \<in> set xs"
  by (induction xs) (auto split: if_splits)

lemma update_first_set_key:
  "distinct (map k xs) \<Longrightarrow> x \<in> set (update_first (\<lambda>z. k z = a) y xs) \<Longrightarrow>
     x = y \<or> (x \<in> set xs \<and> k x \<noteq> a)"
proof (induction xs)
  case Nil
  then show ?case by simp
next
  case (Cons z zs)
  show ?case
  proof (cases "k z = a")
    case True
    with Cons.prems have "x = y \<or> x \<in> set zs"
      by auto
    moreover have "k x \<noteq> a" if "x \<in> set zs"
    proof
      assume "k x = a"
      with that True have "k z \<in> k ` set zs"
        by (metis imageI)
      with Cons.prems(1) show False
        by simp
    qed
    ultimately show ?thesis
      by auto
  next
    case False
    with Cons show ?thesis
      by auto
  qed
qed

lemma update_first_length: "length (update_first P y xs) = length xs"
  by (induction xs) auto

lemma update_first_map:
  "(\<And>x. P x \<Longrightarrow> g x = g y) \<Longrightarrow> map g (update_first P y xs) = map g xs"
  by (induction xs) auto

lemma update_first_filter_in:
  "(\<And>x. P x \<Longrightarrow> Q x) \<Longrightarrow> Q y \<Longrightarrow>
     filter Q (update_first P y xs) = update_first P y (filter Q xs)"
  by (induction xs) auto

lemma update_first_filter_out:
  "(\<And>x. P x \<Longrightarrow> \<not> Q x) \<Longrightarrow> \<not> Q y \<Longrightarrow> filter Q (update_first P y xs) = filter Q xs"
  by (induction xs) auto

lemma find_filter: "(\<And>x. P x \<Longrightarrow> Q x) \<Longrightarrow> find P (filter Q xs) = find P xs"
  by (induction xs) auto

lemma update_first_sum:
  "find P xs = Some e \<Longrightarrow>
     sum_list (map f (update_first P y xs)) = sum_list (map f xs) - f e + f y"
  for f :: "'a \<Rightarrow> rat"
  by (induction xs) (auto split: if_splits)

lemma update_first_all: "list_all R xs \<Longrightarrow> R y \<Longrightarrow> list_all R (update_first P y xs)"
  by (induction xs) auto

lemma find_in_set: "find P xs = Some x \<Longrightarrow> x \<in> set xs \<and> P x"
  by (induction xs) (auto split: if_splits)

subsection \<open>One rating request\<close>

lemma consistent_rows_edit:
  assumes ok: "consistent_rows rows c"
      and found: "find (is_rating_of current_user content_id) rows = Some e"
  shows "consistent_rows
           (update_first (is_rating_of current_user content_id) (e\<lparr>ci_rating := Some r\<rparr>) rows)
           (c\<lparr>c_average_rating :=
                Some ((old_mean c * of_int (c_total_ratings c) - rating_value e + of_int r)
                      / of_int (c_total_ratings c))\<rparr>)"
proof -
  have e: "e \<in> set rows" "is_rating_of current_user content_id e"
    using find_in_set [OF found] by simp_all
  then have ne: "rows \<noteq> []"
    by auto
  with ok have avg: "c_average_rating c = Some (mean (map rating_value rows))"
    and total: "c_total_ratings c = int (length rows)"
    and vals: "list_all (\<lambda>i. ci_rating i \<noteq> None) rows"
    and users: "distinct (map ci_user_id rows)"
    by (simp_all add: consistent_rows_def)
  have len: "(of_nat (length rows) :: rat) \<noteq> 0"
    using ne by simp
  have sum_old: "old_mean c * of_int (c_total_ratings c) = sum_list (map rating_value rows)"
    using len by (simp add: old_mean_def avg total mean_def)
  let ?rows = "update_first (is_rating_of current_user content_id) (e\<lparr>ci_rating := Some r\<rparr>) rows"
  have sum_new: "sum_list (map rating_value ?rows) =
                   sum_list (map rating_value rows) - rating_value e + of_int r"
    using update_first_sum [OF found, of rating_value "e\<lparr>ci_rating := Some r\<rparr>"]
    by (simp add: rating_value_def)
  have users': "map ci_user_id ?rows = map ci_user_id rows"
    by (rule update_first_map) (use e(2) in \<open>simp add: is_rating_of_def\<close>)
  have vals': "list_all (\<lambda>i. ci_rating i \<noteq> None) ?rows"
    by (rule update_first_all [OF vals]) simp
  show ?thesis
    using users users' vals' sum_old sum_new
    by (simp add: consistent_rows_def update_first_length total mean_def)
qed

lemma consistent_rows_new:
  assumes ok: "consistent_rows rows c"
      and fresh: "find (is_rating_of current_user content_id) rows = None"
      and rows: "list_all (\<lambda>i. ci_content_id i = content_id \<and> ci_interaction_type i = ''rate'') rows"
  shows "consistent_rows
           (rows @ [\<lparr>ci_user_id = u_id current_user, ci_content_id = content_id,
                     ci_interaction_type = ''rate'', ci_rating = Some r\<rparr>])
           (c\<lparr>c_average_rating :=
                Some ((old_mean c * of_int (c_total_ratings c) + of_int r)
                      / of_int (c_total_ratings c + 1)),
              c_total_ratings := c_total_ratings c + 1\<rparr>)"
proof -
  from ok have total: "c_total_ratings c = int (length rows)"
    and vals: "list_all (\<lambda>i. ci_rating i \<noteq> None) rows"
    and users: "distinct (map ci_user_id rows)"
    and avg: "rows = [] \<or> c_average_rating c = Some (mean (map rating_value rows))"
    by (simp_all add: consistent_rows_def)
  have new_user: "u_id current_user \<notin> ci_user_id ` set rows"
    using fresh rows by (auto simp: find_None_iff is_rating_of_def list_all_iff)
  have sum_old: "old_mean c * of_int (c_total_ratings c) = sum_list (map rating_value rows)"
  proof (cases "rows = []")
    case True
    then show ?thesis by (simp add: total)
  next
    case False
    with avg show ?thesis
      by (simp add: old_mean_def total mean_def)
  qed
  have "of_int (c_total_ratings c + 1) = (of_nat (length rows) + 1 :: rat)"
    by (simp add: total)
  then show ?thesis
    using users vals new_user sum_old
    by (simp add: consistent_rows_def total mean_def rating_value_def add.commute)
qed
lemma find_rating_rows:
  "find (is_rating_of current_user content_id) (rate_rows d content_id) =
     find (is_rating_of current_user content_id) (content_interactions d)"
  unfolding rate_rows_def by (rule find_filter) (simp add: is_rating_of_def)

lemma rate_rows_all:
  "list_all (\<lambda>i. ci_content_id i = content_id \<and> ci_interaction_type i = ''rate'')
     (rate_rows d content_id)"
  by (simp add: rate_rows_def list_all_iff)

lemma rating_inv_content:
  assumes "rating_inv d" and "find (\<lambda>c. c_id c = content_id) (contents d) = Some c"
  shows "c_id c = content_id" and "consistent_rows (rate_rows d content_id) c"
  using assms find_in_set [OF assms(2)]
  by (auto simp: rating_inv_def list_all_iff ratings_consistent_def)

text \<open>
  In a store where the rating columns agree with the interactions, a request to rate
  a content item follows one of two formulas: a first rating of the user, or an edit of
  the user's rating in place.
\<close>

lemma rate_content_step:
  assumes inv: "rating_inv d"
      and c: "find (\<lambda>c. c_id c = content_id) (contents d) = Some c"
  shows "snd (rate_content content_id r current_user d) =
     (case find (is_rating_of current_user content_id) (content_interactions d) of
        None \<Rightarrow>
          d\<lparr>contents :=
              update_first (\<lambda>c. c_id c = content_id)
                (c\<lparr>c_average_rating :=
                     Some ((old_mean c * of_int (c_total_ratings c) + of_int r)
                           / of_int (c_total_ratings c + 1)),
                   c_total_ratings := c_total_ratings c + 1\<rparr>)
                (contents d),
            content_interactions :=
              content_interactions d @
                [\<lparr>ci_user_id = u_id current_user, ci_content_id = content_id,
                  ci_interaction_type = ''rate'', ci_rating = Some r\<rparr>]\<rparr>
      | Some e \<Rightarrow>
          d\<lparr>contents :=
              update_first (\<lambda>c. c_id c = content_id)
                (c\<lparr>c_average_rating :=
                     Some ((old_mean c * of_int (c_total_ratings c) - rating_value e + of_int r)
                           / of_int (c_total_ratings c))\<rparr>)
                (contents d),
            content_interactions :=
              update_first (is_rating_of current_user content_id)
                (e\<lparr>ci_rating := Some r\<rparr>) (content_interactions d)\<rparr>)"
proof -
  note ok = rating_inv_content(2) [OF inv c]
  then have total: "c_total_ratings c = int (length (rate_rows d content_id))"
    and vals: "list_all (\<lambda>i. ci_rating i \<noteq> None) (rate_rows d content_id)"
    and avg: "rate_rows d content_id = [] \<or>
              c_average_rating c = Some (mean (map rating_value (rate_rows d content_id)))"
    by (simp_all add: consistent_rows_def)
  show ?thesis
  proof (cases "find (is_rating_of current_user content_id) (content_interactions d)")
    case None
    show ?thesis
    proof (cases "0 < c_total_ratings c")
      case True
      with total avg obtain a where "c_average_rating c = Some a"
        by auto
      with None True c show ?thesis
        by (simp add: rate_content_def Let_def old_mean_def)
    next
      case False
      with total have "c_total_ratings c = 0"
        by simp
      with None c show ?thesis
        by (simp add: rate_content_def Let_def)
    qed
  next
    case (Some e)
    then have "find (is_rating_of current_user content_id) (rate_rows d content_id) = Some e"
      by (simp add: find_rating_rows)
    then have e: "e \<in> set (rate_rows d content_id)"
      using find_in_set by fastforce
    then have ne: "rate_rows d content_id \<noteq> []"
      by auto
    with total have pos: "0 < c_total_ratings c"
      by simp
    from ne avg obtain a where a: "c_average_rating c = Some a"
      by auto
    from e vals obtain old where old: "ci_rating e = Some old"
      by (auto simp: list_all_iff)
    from Some c pos a old show ?thesis
      by (simp add: rate_content_def Let_def old_mean_def rating_value_def)
  qed
qed

lemma rate_content_inv:
  assumes inv: "rating_inv d"
  shows "rating_inv (snd (rate_content content_id r current_user d))"
proof (cases "find (\<lambda>c. c_id c = content_id) (contents d)")
  case None
  with inv show ?thesis
    by (simp add: rate_content_def)
next
  case (Some c)
  note ok = rating_inv_content [OF inv Some]
  from inv have ids: "distinct (map c_id (contents d))"
    and all: "\<And>x. x \<in> set (contents d) \<Longrightarrow> ratings_consistent d x"
    by (simp_all add: rating_inv_def list_all_iff)
  let ?d = "snd (rate_content content_id r current_user d)"
  show ?thesis
  proof (cases "find (is_rating_of current_user content_id) (content_interactions d)")
    case None
    let ?c = "c\<lparr>c_average_rating :=
                  Some ((old_mean c * of_int (c_total_ratings c) + of_int r)
                        / of_int (c_total_ratings c + 1)),
                c_total_ratings := c_total_ratings c + 1\<rparr>"
    let ?new = "\<lparr>ci_user_id = u_id current_user, ci_content_id = content_id,
                 ci_interaction_type = ''rate'', ci_rating = Some r\<rparr>"
    have d': "?d = d\<lparr>contents := update_first (\<lambda>c. c_id c = content_id) ?c (contents d),
                     content_interactions := content_interactions d @ [?new]\<rparr>"
      using rate_content_step [OF inv Some, of r current_user] None by simp
    have ids': "map c_id (contents ?d) = map c_id (contents d)"
      unfolding d' using ok(1) by (simp add: update_first_map)
    have rows_same: "rate_rows ?d i = rate_rows d i" if "i \<noteq> content_id" for i
      unfolding d' using that by (simp add: rate_rows_def)
    have rows_new: "rate_rows ?d content_id = rate_rows d content_id @ [?new]"
      unfolding d' by (simp add: rate_rows_def)
    have "ratings_consistent ?d x" if "x \<in> set (contents ?d)" for x
    proof -
      from that have "x = ?c \<or> (x \<in> set (contents d) \<and> c_id x \<noteq> content_id)"
        unfolding d' using update_first_set_key [OF ids] by simp
      then show ?thesis
      proof
        assume "x = ?c"
        then show ?thesis
          using consistent_rows_new [OF ok(2) _ rate_rows_all, of current_user r] None ok(1)
          by (simp add: ratings_consistent_def rows_new find_rating_rows)
      next
        assume "x \<in> set (contents d) \<and> c_id x \<noteq> content_id"
        then show ?thesis
          using all [of x] by (simp add: ratings_consistent_def rows_same)
      qed
    qed
    then show ?thesis
      using ids ids' by (simp add: rating_inv_def list_all_iff)
  next
    case (Some e)
    let ?c = "c\<lparr>c_average_rating :=
                  Some ((old_mean c * of_int (c_total_ratings c) - rating_value e + of_int r)
                        / of_int (c_total_ratings c))\<rparr>"
    let ?e = "e\<lparr>ci_rating := Some r\<rparr>"
    have e: "is_rating_of current_user content_id e"
      using find_in_set [OF Some] by simp
    have d': "?d = d\<lparr>contents := update_first (\<lambda>c. c_id c = content_id) ?c (contents d),
                     content_interactions :=
                       update_first (is_rating_of current_user content_id) ?e
                         (content_interactions d)\<rparr>"
      using rate_content_step [OF inv \<open>find (\<lambda>c. c_id c = content_id) (contents d) = Some c\<close>,
          of r current_user] Some by simp
    have ids': "map c_id (contents ?d) = map c_id (contents d)"
      unfolding d' using ok(1) by (simp add: update_first_map)
    have rows_same: "rate_rows ?d i = rate_rows d i" if "i \<noteq> content_id" for i
    proof -
      have "filter (\<lambda>x. ci_content_id x = i \<and> ci_interaction_type x = ''rate'')
              (update_first (is_rating_of current_user content_id) ?e (content_interactions d))
            = filter (\<lambda>x. ci_content_id x = i \<and> ci_interaction_type x = ''rate'')
                (content_interactions d)"
        by (rule update_first_filter_out) (use that e in \<open>auto simp: is_rating_of_def\<close>)
      then show ?thesis
        unfolding d' rate_rows_def by simp
    qed
    have rows_new: "rate_rows ?d content_id =
                      update_first (is_rating_of current_user content_id) ?e
                        (rate_rows d content_id)"
    proof -
      have "filter (\<lambda>x. ci_content_id x = content_id \<and> ci_interaction_type x = ''rate'')
              (update_first (is_rating_of current_user content_id) ?e (content_interactions d))
            = update_first (is_rating_of current_user content_id) ?e
                (filter (\<lambda>x. ci_content_id x = content_id \<and> ci_interaction_type x = ''rate'')
                   (content_interactions d))"
        by (rule update_first_filter_in) (use e in \<open>auto simp: is_rating_of_def\<close>)
      then show ?thesis
        unfolding d' rate_rows_def by simp
    qed
    have "ratings_consistent ?d x" if "x \<in> set (contents ?d)" for x
    proof -
      from that have "x = ?c \<or> (x \<in> set (contents d) \<and> c_id x \<noteq> content_id)"
        unfolding d' using update_first_set_key [OF ids] by simp
      then show ?thesis
      proof
        assume "x = ?c"
        then show ?thesis
          using consistent_rows_edit [OF ok(2), of current_user content_id e r] Some ok(1)
          by (simp add: ratings_consistent_def rows_new find_rating_rows)
      next
        assume "x \<in> set (contents d) \<and> c_id x \<noteq> content_id"
        then show ?thesis
          using all [of x] by (simp add: ratings_consistent_def rows_same)
      qed
    qed
    then show ?thesis
      using ids ids' by (simp add: rating_inv_def list_all_iff)
  qed
qed

lemma rate_all_inv: "rating_inv d \<Longrightarrow> rating_inv (rate_all requests d)"
  by (induction requests d rule: rate_all.induct) (simp_all add: rate_content_inv)

lemma unrated_inv: "unrated d \<Longrightarrow> rating_inv d"
proof -
  assume u: "unrated d"
  then have "rate_rows d i = []" for i
    by (auto simp: unrated_def rate_rows_def list_all_iff filter_empty_conv)
  with u show ?thesis
    by (simp add: unrated_def rating_inv_def ratings_consistent_def consistent_rows_def
        list_all_iff)
qed
subsection \<open>The running average of the ratings\<close>

text \<open>
  C4. Starting from content items that have not been rated, after any sequence of
  requests to the rate endpoint (first ratings and edits in place, by any users, on any
  items) every content item has one rating per user who rated it, \<^verbatim>\<open>total_ratings\<close> is
  the number of these ratings and \<^verbatim>\<open>average_rating\<close> is their arithmetic mean. In such
  a store a further request of a user without a rating on the item sets the average to
  \<open>(oldMean \<times> oldCount + newValue) / (oldCount + 1)\<close> and increments \<^verbatim>\<open>total_ratings\<close>;
  a request of a user with a rating sets it to
  \<open>(oldMean \<times> count - oldValue + newValue) / count\<close> and leaves \<^verbatim>\<open>total_ratings\<close> as
  it is. Floats are exact rationals here.
\<close>

theorem rate_content_keeps_mean:
  assumes "unrated d0" and "d = rate_all requests d0"
  shows "(\<forall>c \<in> set (contents d).
            c_total_ratings c = int (length (current_ratings d (c_id c)))
            \<and> distinct (map ci_user_id (rate_rows d (c_id c)))
            \<and> (current_ratings d (c_id c) \<noteq> [] \<longrightarrow>
                 c_average_rating c = Some (mean (current_ratings d (c_id c)))))
       \<and> (\<forall>c. find (\<lambda>c. c_id c = content_id) (contents d) = Some c \<longrightarrow>
            find (\<lambda>c. c_id c = content_id)
              (contents (snd (rate_content content_id r current_user d))) =
            Some (case find (is_rating_of current_user content_id) (content_interactions d) of
                    None \<Rightarrow>
                      c\<lparr>c_average_rating :=
                          Some ((old_mean c * of_int (c_total_ratings c) + of_int r)
                                / of_int (c_total_ratings c + 1)),
                        c_total_ratings := c_total_ratings c + 1\<rparr>
                  | Some e \<Rightarrow>
                      c\<lparr>c_average_rating :=
                          Some ((old_mean c * of_int (c_total_ratings c)
                                   - rating_value e + of_int r)
                                / of_int (c_total_ratings c))\<rparr>))"
proof -
  have inv: "rating_inv d"
    using assms by (simp add: rate_all_inv unrated_inv)
  have mean: "c_total_ratings c = int (length (current_ratings d (c_id c)))
            \<and> distinct (map ci_user_id (rate_rows d (c_id c)))
            \<and> (current_ratings d (c_id c) \<noteq> [] \<longrightarrow>
                 c_average_rating c = Some (mean (current_ratings d (c_id c))))"
    if "c \<in> set (contents d)" for c
    using inv that
    by (auto simp: rating_inv_def list_all_iff ratings_consistent_def consistent_rows_def
        current_ratings_def)
  have step: "find (\<lambda>c. c_id c = content_id)
              (contents (snd (rate_content content_id r current_user d))) =
            Some (case find (is_rating_of current_user content_id) (content_interactions d) of
                    None \<Rightarrow>
                      c\<lparr>c_average_rating :=
                          Some ((old_mean c * of_int (c_total_ratings c) + of_int r)
                                / of_int (c_total_ratings c + 1)),
                        c_total_ratings := c_total_ratings c + 1\<rparr>
                  | Some e \<Rightarrow>
                      c\<lparr>c_average_rating :=
                          Some ((old_mean c * of_int (c_total_ratings c)
                                   - rating_value e + of_int r)
                                / of_int (c_total_ratings c))\<rparr>)"
    if c: "find (\<lambda>c. c_id c = content_id) (contents d) = Some c" for c
  proof -
    have "c_id c = content_id"
      using find_in_set [OF c] by simp
    then show ?thesis
      unfolding rate_content_step [OF inv c]
      by (cases "find (is_rating_of current_user content_id) (content_interactions d)")
         (simp_all add: find_update_first [OF c])
  qed
  show ?thesis
    using mean step by blast
qed

lemma unrated_catalogue: "unrated catalogue"
  by (simp add: unrated_def catalogue_def empty_db_def new_content_def)

lemma eval_rate_five_then_three:
  "contents (rate_all [(user1, 1, 5), (user1, 1, 3)] catalogue) =
     [\<lparr>c_id = 1, c_average_rating = Some 3, c_total_ratings = 1\<rparr>,
      \<lparr>c_id = 2, c_average_rating = None, c_total_ratings = 0\<rparr>]
   \<and> contents (rate_all [(user1, 1, 5), (user2, 1, 4), (user2, 2, 1), (user1, 1, 2)] catalogue) =
     [\<lparr>c_id = 1, c_average_rating = Some 3, c_total_ratings = 2\<rparr>,
      \<lparr>c_id = 2, c_average_rating = Some 1, c_total_ratings = 1\<rparr>]
   \<and> current_ratings
       (rate_all [(user1, 1, 5), (user2, 1, 4), (user2, 2, 1), (user1, 1, 2)] catalogue) 1
     = [2, 4]"
  by code_simp

theorem rate_content_keeps_mean_witness:
  "contents (rate_all [(user1, 1, 5), (user1, 1, 3)] catalogue) =
     [\<lparr>c_id = 1, c_average_rating = Some 3, c_total_ratings = 1\<rparr>,
      \<lparr>c_id = 2, c_average_rating = None, c_total_ratings = 0\<rparr>]
   \<and> contents (rate_all [(user1, 1, 5), (user2, 1, 4), (user2, 2, 1), (user1, 1, 2)] catalogue) =
     [\<lparr>c_id = 1, c_average_rating = Some 3, c_total_ratings = 2\<rparr>,
      \<lparr>c_id = 2, c_average_rating = Some 1, c_total_ratings = 1\<rparr>]
   \<and> current_ratings
       (rate_all [(user1, 1, 5), (user2, 1, 4), (user2, 2, 1), (user1, 1, 2)] catalogue) 1
     = [2, 4]"
  using rate_content_keeps_mean [OF unrated_catalogue refl,
      of "[(user1, 1, 5), (user1, 1, 3)]" 1 3 user1]
    eval_rate_five_then_three
  by simp

subsection \<open>The milestone loops\<close>

lemma unlock_loop:
  "foldl (unlock_step d current_user ty new_row current) acc ms =
     (fst acc @ map new_row (due d current_user ty current ms),
      snd acc + int (length (due d current_user ty current ms)))"
  by (induction ms arbitrary: acc) (auto simp: unlock_step_def due_def split: option.splits)

lemma perfect_step_rows:
  "perfect_step d current_user now acc =
     (fst acc @ (if perfect_due d current_user then [perfect_achievement current_user now] else []),
      snd acc + (if perfect_due d current_user then 1 else 0))"
  by (auto simp: perfect_step_def perfect_due_def split: option.splits)

lemma check_adds_new_rows:
  "check_for_new_achievements current_user now d =
     (int (length (new_rows current_user now d)),
      d\<lparr>achievements := achievements d @ new_rows current_user now d\<rparr>)"
  by (simp add: check_for_new_achievements_def Let_def unlock_loop perfect_step_rows
      new_rows_def)

subsection \<open>The keys of the added rows\<close>

lemma streak_key:
  "has_threshold current_user ty m (streak_achievement current_user v now m') =
     (ty = ''streak'' \<and> m = m')"
  by (auto simp: has_threshold_def streak_achievement_def)

lemma time_key:
  "has_threshold current_user ty m (time_achievement current_user v now m') =
     (ty = ''time'' \<and> m = m')"
  by (auto simp: has_threshold_def time_achievement_def Let_def)

lemma mastery_key:
  "has_threshold current_user ty m (mastery_achievement current_user v now m') =
     (ty = ''mastery'' \<and> m = m')"
  by (auto simp: has_threshold_def mastery_achievement_def)

lemma perfect_key:
  "has_threshold current_user ty m (perfect_achievement current_user now) =
     (ty = ''assessment'' \<and> m = 95)"
proof -
  have "(rat_of_int m = 95) = (m = 95)"
    by (metis of_int_eq_iff of_int_numeral)
  then show ?thesis
    by (auto simp: has_threshold_def perfect_achievement_def)
qed

lemma title_keys:
  "\<not> has_title current_user ''assessment'' t (streak_achievement current_user v now m)"
  "\<not> has_title current_user ''assessment'' t (time_achievement current_user v now m)"
  "\<not> has_title current_user ''assessment'' t (mastery_achievement current_user v now m)"
  "has_title current_user ''assessment'' ''Perfectionist'' (perfect_achievement current_user now)"
  by (simp_all add: has_title_def streak_achievement_def time_achievement_def
      mastery_achievement_def perfect_achievement_def Let_def)

lemma filter_map_key:
  assumes "\<And>m'. P (f m') = (m' = m)" and "distinct ms"
  shows "filter P (map f ms) = (if m \<in> set ms then [f m] else [])"
  using assms(2)
proof (induction ms)
  case Nil
  then show ?case by simp
next
  case (Cons a ms)
  then show ?case
    by (auto simp: assms(1) filter_empty_conv)
qed

lemma filter_map_none:
  assumes "\<And>m'. \<not> P (f m')"
  shows "filter P (map f ms) = []"
  by (simp add: filter_empty_conv assms)

lemma distinct_milestones:
  "distinct streak_milestones" "distinct time_milestones" "distinct mastery_milestones"
  by (simp_all add: streak_milestones_def time_milestones_def mastery_milestones_def)

lemma distinct_due: "distinct ms \<Longrightarrow> distinct (due d current_user ty v ms)"
  by (simp add: due_def)

text \<open>The rows a call adds for one milestone of one table, and for the perfect score.\<close>

lemma new_rows_threshold:
  assumes "(ty, v, ms) \<in> set (milestone_tables d current_user)" and "m \<in> set ms"
  shows "length (filter (has_threshold current_user ty m) (new_rows current_user now d)) =
           (if m \<in> set (due d current_user ty v ms) then 1 else 0)"
proof -
  have 95: "(95::int) \<notin> set streak_milestones" "(95::int) \<notin> set time_milestones"
    "(95::int) \<notin> set mastery_milestones"
    by (simp_all add: streak_milestones_def time_milestones_def mastery_milestones_def)
  from assms(1) consider
      (streak) "ty = ''streak''" "v = max_streak_of d current_user" "ms = streak_milestones"
    | (time) "ty = ''time''" "v = u_total_study_time_minutes current_user"
        "ms = time_milestones"
    | (mastery) "ty = ''mastery''" "v = mastered_subjects_of d current_user"
        "ms = mastery_milestones"
    by (auto simp: milestone_tables_def)
  then show ?thesis
  proof cases
    case streak
    have "filter (has_threshold current_user ''streak'' m)
            (map (streak_achievement current_user v now) (due d current_user ''streak'' v ms)) =
          (if m \<in> set (due d current_user ''streak'' v ms)
           then [streak_achievement current_user v now m] else [])"
      by (rule filter_map_key) (auto simp: streak_key streak distinct_due distinct_milestones)
    then show ?thesis
      using streak
      by (simp add: new_rows_def filter_map_none time_key mastery_key perfect_key)
  next
    case time
    have "filter (has_threshold current_user ''time'' m)
            (map (time_achievement current_user v now) (due d current_user ''time'' v ms)) =
          (if m \<in> set (due d current_user ''time'' v ms)
           then [time_achievement current_user v now m] else [])"
      by (rule filter_map_key) (auto simp: time_key time distinct_due distinct_milestones)
    then show ?thesis
      using time
      by (simp add: new_rows_def filter_map_none streak_key mastery_key perfect_key)
  next
    case mastery
    have "filter (has_threshold current_user ''mastery'' m)
            (map (mastery_achievement current_user v now) (due d current_user ''mastery'' v ms)) =
          (if m \<in> set (due d current_user ''mastery'' v ms)
           then [mastery_achievement current_user v now m] else [])"
      by (rule filter_map_key) (auto simp: mastery_key mastery distinct_due distinct_milestones)
    then show ?thesis
      using mastery
      by (simp add: new_rows_def filter_map_none streak_key time_key perfect_key)
  qed
qed

lemma new_rows_title:
  "length (filter (has_title current_user ''assessment'' ''Perfectionist'')
             (new_rows current_user now d)) =
     (if perfect_due d current_user then 1 else 0)"
  by (simp add: new_rows_def filter_map_none title_keys)
subsection \<open>A second check finds nothing to add\<close>

lemma find_None_filter: "(find P xs = None) = (filter P xs = [])"
  by (auto simp: find_None_iff filter_empty_conv)

lemma due_member:
  "(m \<in> set (due d current_user ty v ms)) =
     (m \<in> set ms \<and> m \<le> v \<and> unlocked_count d current_user ty m = 0)"
  by (auto simp: due_def unlocked_count_def find_None_filter)

lemma perfect_due_count:
  "perfect_due d current_user =
     (95 \<le> u_average_score current_user \<and> perfect_count d current_user = 0)"
  by (simp add: perfect_due_def perfect_count_def find_None_filter)

lemma tables_after:
  "milestone_tables (d\<lparr>achievements := rows\<rparr>) current_user = milestone_tables d current_user"
  by (simp add: milestone_tables_def max_streak_of_def mastered_subjects_of_def)

lemma count_after:
  assumes "(ty, v, ms) \<in> set (milestone_tables d current_user)" and "m \<in> set ms"
  shows "unlocked_count (d\<lparr>achievements := achievements d @ new_rows current_user now d\<rparr>)
           current_user ty m =
         unlocked_count d current_user ty m +
           (if m \<le> v \<and> unlocked_count d current_user ty m = 0 then 1 else 0)"
  using new_rows_threshold [OF assms, of now] assms(2)
  by (simp add: unlocked_count_def due_member)

lemma perfect_count_after:
  "perfect_count (d\<lparr>achievements := achievements d @ new_rows current_user now d\<rparr>)
     current_user =
   perfect_count d current_user +
     (if 95 \<le> u_average_score current_user \<and> perfect_count d current_user = 0 then 1 else 0)"
  using new_rows_title [of current_user now d]
  by (simp add: perfect_count_def perfect_due_count)

lemma due_after:
  assumes "(ty, v, ms) \<in> set (milestone_tables d current_user)"
  shows "due (d\<lparr>achievements := achievements d @ new_rows current_user now d\<rparr>)
           current_user ty v ms = []"
proof -
  let ?d = "d\<lparr>achievements := achievements d @ new_rows current_user now d\<rparr>"
  have "m \<notin> set (due ?d current_user ty v ms)" for m
  proof
    assume m: "m \<in> set (due ?d current_user ty v ms)"
    then have "m \<in> set ms" and "m \<le> v" and "unlocked_count ?d current_user ty m = 0"
      by (simp_all add: due_member)
    with count_after [OF assms, of m now] show False
      by (simp split: if_splits)
  qed
  then show ?thesis
    by (meson last_in_set)
qed

lemma new_rows_after:
  "new_rows current_user now'
     (d\<lparr>achievements := achievements d @ new_rows current_user now d\<rparr>) = []"
proof -
  let ?d = "d\<lparr>achievements := achievements d @ new_rows current_user now d\<rparr>"
  have same: "max_streak_of ?d current_user = max_streak_of d current_user"
    "mastered_subjects_of ?d current_user = mastered_subjects_of d current_user"
    by (simp_all add: max_streak_of_def mastered_subjects_of_def)
  have "due ?d current_user ''streak'' (max_streak_of d current_user) streak_milestones = []"
    by (rule due_after) (simp add: milestone_tables_def)
  moreover have "due ?d current_user ''time'' (u_total_study_time_minutes current_user)
                   time_milestones = []"
    by (rule due_after) (simp add: milestone_tables_def)
  moreover have "due ?d current_user ''mastery'' (mastered_subjects_of d current_user)
                   mastery_milestones = []"
    by (rule due_after) (simp add: milestone_tables_def)
  moreover have "\<not> perfect_due ?d current_user"
    using perfect_count_after [of d current_user now]
    by (simp add: perfect_due_count split: if_splits)
  ultimately show ?thesis
    unfolding new_rows_def [of current_user now' ?d] same by simp
qed

subsection \<open>Idempotence of the achievement check\<close>

text \<open>
  C3. The achievement check run a second time, right after a first run and on the
  state the first run left, unlocks nothing: it returns 0 and leaves the store as it
  is. The first run adds, for every milestone of the streak, time and mastery tables,
  one row when the milestone is reached and the store holds no achievement of the
  user with that type and threshold value, and no row otherwise; likewise one
  perfect-score row when the average is at least 95 and the store holds no achievement
  of the user with that type and title. So after both runs each qualifying
  achievement has been unlocked exactly once.
\<close>

theorem achievement_check_idempotent:
  "check_for_new_achievements current_user now'
     (snd (check_for_new_achievements current_user now d)) =
     (0, snd (check_for_new_achievements current_user now d))
   \<and> (\<forall>(ty, v, ms) \<in> set (milestone_tables d current_user). \<forall>m \<in> set ms.
        unlocked_count (snd (check_for_new_achievements current_user now d)) current_user ty m =
          unlocked_count d current_user ty m +
            (if m \<le> v \<and> unlocked_count d current_user ty m = 0 then 1 else 0))
   \<and> perfect_count (snd (check_for_new_achievements current_user now d)) current_user =
       perfect_count d current_user +
         (if 95 \<le> u_average_score current_user \<and> perfect_count d current_user = 0
          then 1 else 0)"
proof (intro conjI)
  show "check_for_new_achievements current_user now'
          (snd (check_for_new_achievements current_user now d)) =
        (0, snd (check_for_new_achievements current_user now d))"
    by (simp add: check_adds_new_rows new_rows_after)
  show "\<forall>(ty, v, ms) \<in> set (milestone_tables d current_user). \<forall>m \<in> set ms.
          unlocked_count (snd (check_for_new_achievements current_user now d)) current_user ty m =
            unlocked_count d current_user ty m +
              (if m \<le> v \<and> unlocked_count d current_user ty m = 0 then 1 else 0)"
    using count_after [of _ _ _ d current_user _ now]
    by (auto simp: check_adds_new_rows)
  show "perfect_count (snd (check_for_new_achievements current_user now d)) current_user =
          perfect_count d current_user +
            (if 95 \<le> u_average_score current_user \<and> perfect_count d current_user = 0
             then 1 else 0)"
    by (simp add: check_adds_new_rows perfect_count_after)
qed

lemma eval_learner_check:
  "fst (check_for_new_achievements learner 50 learner_db) = 6
   \<and> unlocked_keys (snd (check_for_new_achievements learner 50 learner_db)) =
       [(1, ''streak'', Some 7, ''7-Day Study Streak''),
        (1, ''streak'', Some 14, ''14-Day Study Streak''),
        (1, ''time'', Some 600, ''10-Hour Scholar''),
        (1, ''time'', Some 1200, ''20-Hour Scholar''),
        (1, ''assessment'', Some 95, ''Perfectionist''),
        (1, ''mastery'', Some 1, ''Master of 1 Subject'')]"
  by code_simp

theorem achievement_check_idempotent_witness:
  "fst (check_for_new_achievements learner 50 learner_db) = 6
   \<and> unlocked_keys (snd (check_for_new_achievements learner 50 learner_db)) =
       [(1, ''streak'', Some 7, ''7-Day Study Streak''),
        (1, ''streak'', Some 14, ''14-Day Study Streak''),
        (1, ''time'', Some 600, ''10-Hour Scholar''),
        (1, ''time'', Some 1200, ''20-Hour Scholar''),
        (1, ''assessment'', Some 95, ''Perfectionist''),
        (1, ''mastery'', Some 1, ''Master of 1 Subject'')]
   \<and> check_for_new_achievements learner 60
       (snd (check_for_new_achievements learner 50 learner_db)) =
       (0, snd (check_for_new_achievements learner 50 learner_db))"
  using achievement_check_idempotent [of learner 60 50 learner_db] eval_learner_check
  by simp

end
